theory Spec2Isabelle
  imports Main "HOL-Library.Word"
begin

unbundle bit_operations_syntax

section \<open>Bytecode stack effects (thunder/core/script/python\_ir\_data.py)\<close>

text \<open>
  Python exceptions raised by the modelled code are values; a function that can raise
  returns \<open>error + 'a\<close>, with \<open>Inl\<close> for the raised exception.
\<close>

datatype error =
    ValueError string
  | RuntimeError string
  | AssertionError
  | IndexError
  | KeyError
  | TypeError
  | AttributeError

text \<open>
  The dictionary \<open>fixed_stack_effects_detail\<close>, in the order of the source. The source
  has no repeated key, so the first-match lookup of \<open>map_of\<close> is the dictionary lookup.
\<close>

definition fixed_stack_effects_detail :: "(string \<times> (int \<times> int)) list" where
  "fixed_stack_effects_detail = [
   (''NOP'', (0, 0)),
   (''EXTENDED_ARG'', (0, 0)),
   (''POP_TOP'', (1, 0)),
   (''ROT_TWO'', (2, 2)),
   (''ROT_THREE'', (3, 3)),
   (''ROT_FOUR'', (4, 4)),
   (''DUP_TOP'', (1, 2)),
   (''DUP_TOP_TWO'', (2, 4)),
   (''UNARY_POSITIVE'', (1, 1)),
   (''UNARY_NEGATIVE'', (1, 1)),
   (''UNARY_NOT'', (1, 1)),
   (''UNARY_INVERT'', (1, 1)),
   (''SET_ADD'', (2, 1)),
   (''LIST_APPEND'', (2, 1)),
   (''MAP_ADD'', (3, 1)),
   (''BINARY_POWER'', (2, 1)),
   (''BINARY_MULTIPLY'', (2, 1)),
   (''BINARY_MATRIX_MULTIPLY'', (2, 1)),
   (''BINARY_MODULO'', (2, 1)),
   (''BINARY_ADD'', (2, 1)),
   (''BINARY_SUBTRACT'', (2, 1)),
   (''BINARY_SUBSCR'', (2, 1)),
   (''BINARY_FLOOR_DIVIDE'', (2, 1)),
   (''BINARY_TRUE_DIVIDE'', (2, 1)),
   (''INPLACE_FLOOR_DIVIDE'', (2, 1)),
   (''INPLACE_TRUE_DIVIDE'', (2, 1)),
   (''INPLACE_ADD'', (2, 1)),
   (''INPLACE_SUBTRACT'', (2, 1)),
   (''INPLACE_MULTIPLY'', (2, 1)),
   (''INPLACE_MATRIX_MULTIPLY'', (2, 1)),
   (''INPLACE_MODULO'', (2, 1)),
   (''BINARY_LSHIFT'', (2, 1)),
   (''BINARY_RSHIFT'', (2, 1)),
   (''BINARY_AND'', (2, 1)),
   (''BINARY_XOR'', (2, 1)),
   (''BINARY_OR'', (2, 1)),
   (''INPLACE_POWER'', (2, 1)),
   (''INPLACE_LSHIFT'', (2, 1)),
   (''INPLACE_RSHIFT'', (2, 1)),
   (''INPLACE_AND'', (2, 1)),
   (''INPLACE_XOR'', (2, 1)),
   (''INPLACE_OR'', (2, 1)),
   (''STORE_SUBSCR'', (3, 0)),
   (''DELETE_SUBSCR'', (2, 0)),
   (''GET_ITER'', (1, 1)),
   (''PRINT_EXPR'', (1, 0)),
   (''LOAD_BUILD_CLASS'', (0, 1)),
   (''RETURN_VALUE'', (1, 0)),
   (''IMPORT_STAR'', (1, 0)),
   (''SETUP_ANNOTATIONS'', (0, 0)),
   (''YIELD_VALUE'', (1, 1)),
   (''YIELD_FROM'', (2, 1)),
   (''POP_BLOCK'', (0, 0)),
   (''POP_EXCEPT'', (3, 0)),
   (''STORE_NAME'', (1, 0)),
   (''DELETE_NAME'', (0, 0)),
   (''STORE_ATTR'', (2, 0)),
   (''DELETE_ATTR'', (1, 0)),
   (''STORE_GLOBAL'', (1, 0)),
   (''DELETE_GLOBAL'', (0, 0)),
   (''LOAD_CONST'', (0, 1)),
   (''LOAD_NAME'', (0, 1)),
   (''LOAD_ATTR'', (1, 1)),
   (''COMPARE_OP'', (2, 1)),
   (''IS_OP'', (2, 1)),
   (''CONTAINS_OP'', (2, 1)),
   (''JUMP_IF_NOT_EXC_MATCH'', (2, 0)),
   (''IMPORT_NAME'', (2, 1)),
   (''IMPORT_FROM'', (1, 2)),
   (''JUMP_FORWARD'', (0, 0)),
   (''JUMP_ABSOLUTE'', (0, 0)),
   (''POP_JUMP_IF_FALSE'', (1, 0)),
   (''POP_JUMP_IF_TRUE'', (1, 0)),
   (''LOAD_GLOBAL'', (0, 1)),
   (''RERAISE'', (3, 0)),
   (''WITH_EXCEPT_START'', (7, 8)),
   (''LOAD_FAST'', (0, 1)),
   (''STORE_FAST'', (1, 0)),
   (''DELETE_FAST'', (0, 0)),
   (''LOAD_CLOSURE'', (0, 1)),
   (''LOAD_DEREF'', (0, 1)),
   (''LOAD_CLASSDEREF'', (0, 1)),
   (''STORE_DEREF'', (1, 0)),
   (''DELETE_DEREF'', (0, 0)),
   (''GET_AWAITABLE'', (1, 1)),
   (''BEFORE_ASYNC_WITH'', (1, 2)),
   (''GET_AITER'', (1, 1)),
   (''GET_ANEXT'', (1, 2)),
   (''GET_YIELD_FROM_ITER'', (1, 1)),
   (''END_ASYNC_FOR'', (7, 0)),
   (''LOAD_METHOD'', (1, 2)),
   (''LOAD_ASSERTION_ERROR'', (0, 1)),
   (''LIST_TO_TUPLE'', (1, 1)),
   (''GEN_START'', (1, 0)),
   (''LIST_EXTEND'', (2, 1)),
   (''SET_UPDATE'', (2, 1)),
   (''DICT_MERGE'', (2, 1)),
   (''DICT_UPDATE'', (2, 1)),
   (''COPY_DICT_WITHOUT_KEYS'', (2, 2)),
   (''MATCH_CLASS'', (3, 2)),
   (''GET_LEN'', (1, 2)),
   (''MATCH_MAPPING'', (1, 2)),
   (''MATCH_SEQUENCE'', (1, 2)),
   (''MATCH_KEYS'', (2, 4))
  ]"

text \<open>
  \<open>stack_effect_detail(opname, oparg, *, jump=False)\<close>: the \<open>if\<close>/\<open>elif\<close> chain of the
  source, in its order. Python's \<open>&\<close> and \<open>>>\<close> on unbounded integers are \<open>AND\<close> and
  \<open>drop_bit\<close> on \<open>int\<close>; a comparison used as a summand is 0 or 1 (\<open>of_bool\<close>).
\<close>

definition stack_effect_detail :: "string \<Rightarrow> int \<Rightarrow> bool \<Rightarrow> error + (int \<times> int)" where
  "stack_effect_detail opname oparg jump =
    (case map_of fixed_stack_effects_detail opname of
       Some eff \<Rightarrow> Inr eff
     | None \<Rightarrow>
        if opname = ''ROT_N'' then Inr (oparg, oparg)
        else if opname \<in> {''BUILD_TUPLE'', ''BUILD_LIST'', ''BUILD_SET'', ''BUILD_STRING''}
          then Inr (oparg, 1)
        else if opname = ''BUILD_MAP'' then Inr (2 * oparg, 1)
        else if opname = ''BUILD_CONST_KEY_MAP'' then Inr (oparg + 1, 1)
        else if opname \<in> {''JUMP_IF_TRUE_OR_POP'', ''JUMP_IF_FALSE_OR_POP''}
          then (if jump then Inr (1, 1) else Inr (1, 0))
        else if opname = ''SETUP_FINALLY'' then (if jump then Inr (0, 6) else Inr (0, 0))
        else if opname = ''RAISE_VARARGS'' then Inr (oparg, 0)
        else if opname = ''CALL_FUNCTION'' then Inr (oparg + 1, 1)
        else if opname = ''CALL_METHOD'' then Inr (oparg + 2, 1)
        else if opname = ''CALL_FUNCTION_KW'' then Inr (oparg + 2, 1)
        else if opname = ''CALL_FUNCTION_EX'' then Inr (2 + of_bool (oparg AND 1 \<noteq> 0), 1)
        else if opname = ''MAKE_FUNCTION'' then
          Inr (2 + of_bool (oparg AND 1 \<noteq> 0) + of_bool (oparg AND 2 \<noteq> 0)
                 + of_bool (oparg AND 4 \<noteq> 0) + of_bool (oparg AND 8 \<noteq> 0), 1)
        else if opname = ''BUILD_SLICE'' then Inr (oparg, 1)
        else if opname = ''SETUP_ASYNC_WITH'' then (if jump then Inr (1, 6) else Inr (0, 0))
        else if opname = ''FORMAT_VALUE'' then
          (if oparg AND 4 \<noteq> 0 then Inr (2, 1) else Inr (1, 1))
        else if opname = ''UNPACK_SEQUENCE'' then Inr (1, oparg)
        else if opname = ''UNPACK_EX'' then Inr (1, (oparg AND 255) + drop_bit 8 oparg + 1)
        else if opname = ''FOR_ITER'' then (if jump then Inr (1, 0) else Inr (1, 2))
        else Inl (ValueError (''Invalid opname '' @ opname)))"

text \<open>
  The rule table of the specification for operand- or branch-dependent instructions, row
  by row as the specification words it: bit \<open>k\<close> of the operand is 0 or 1.
\<close>

definition operand_bit :: "int \<Rightarrow> nat \<Rightarrow> int" where
  "operand_bit operand k = of_bool (bit operand k)"

definition spec_effect_rules :: "(string \<times> (int \<Rightarrow> bool \<Rightarrow> int \<times> int)) list" where
  "spec_effect_rules = [
    (''ROT_N'', \<lambda>operand taken. (operand, operand)),
    (''BUILD_TUPLE'', \<lambda>operand taken. (operand, 1)),
    (''BUILD_LIST'', \<lambda>operand taken. (operand, 1)),
    (''BUILD_SET'', \<lambda>operand taken. (operand, 1)),
    (''BUILD_STRING'', \<lambda>operand taken. (operand, 1)),
    (''BUILD_MAP'', \<lambda>operand taken. (2 * operand, 1)),
    (''BUILD_CONST_KEY_MAP'', \<lambda>operand taken. (operand + 1, 1)),
    (''JUMP_IF_TRUE_OR_POP'', \<lambda>operand taken. (1, if taken then 1 else 0)),
    (''JUMP_IF_FALSE_OR_POP'', \<lambda>operand taken. (1, if taken then 1 else 0)),
    (''SETUP_FINALLY'', \<lambda>operand taken. (0, if taken then 6 else 0)),
    (''RAISE_VARARGS'', \<lambda>operand taken. (operand, 0)),
    (''CALL_FUNCTION'', \<lambda>operand taken. (operand + 1, 1)),
    (''CALL_METHOD'', \<lambda>operand taken. (operand + 2, 1)),
    (''CALL_FUNCTION_KW'', \<lambda>operand taken. (operand + 2, 1)),
    (''CALL_FUNCTION_EX'', \<lambda>operand taken. (2 + operand_bit operand 0, 1)),
    (''MAKE_FUNCTION'', \<lambda>operand taken.
       (2 + (operand_bit operand 0 + operand_bit operand 1
             + operand_bit operand 2 + operand_bit operand 3), 1)),
    (''BUILD_SLICE'', \<lambda>operand taken. (operand, 1)),
    (''SETUP_ASYNC_WITH'', \<lambda>operand taken. (if taken then 1 else 0, if taken then 6 else 0)),
    (''FORMAT_VALUE'', \<lambda>operand taken. (if bit operand 2 then 2 else 1, 1)),
    (''UNPACK_SEQUENCE'', \<lambda>operand taken. (1, operand)),
    (''UNPACK_EX'', \<lambda>operand taken. (1, (operand AND 255) + drop_bit 8 operand + 1)),
    (''FOR_ITER'', \<lambda>operand taken. (1, if taken then 0 else 2))
  ]"


text \<open>
  \<open>jump_instructions = set(dis.hasjabs) | set(dis.hasjrel)\<close>. The two lists belong to
  Python's standard library module \<open>dis\<close> and hold opcode numbers; they are parameters here.
\<close>

definition jump_instructions :: "int list \<Rightarrow> int list \<Rightarrow> int set" where
  "jump_instructions hasjabs hasjrel = set hasjabs \<union> set hasjrel"

definition unconditional_jump_names :: "string set" where
  "unconditional_jump_names =
     {''JUMP_ABSOLUTE'', ''JUMP_FORWARD'', ''JUMP_BACKWARD'', ''JUMP_BACKWARD_NO_INTERRUPT''}"

text \<open>
  The derived set of jump instruction names: the names that \<open>dis.opname\<close> gives to the
  opcode numbers in \<open>jump_instructions\<close>. \<open>dis.opname\<close> is standard library data too; the
  part of it that names the listed opcodes is a parameter, as pairs of number and name.
\<close>

definition jump_instruction_names ::
  "(int \<times> string) list \<Rightarrow> int list \<Rightarrow> int list \<Rightarrow> string set" where
  "jump_instruction_names opname hasjabs hasjrel =
     set (map snd (filter (\<lambda>(opcode, name). opcode \<in> jump_instructions hasjabs hasjrel) opname))"

text \<open>
  The values of \<open>dis.hasjabs\<close>, \<open>dis.hasjrel\<close> and of \<open>dis.opname\<close> at these opcodes in
  CPython 3.10, the version the source file targets, and in CPython 3.11 (standard library
  data, used as concrete inputs only).
\<close>

definition py310_hasjabs :: "int list" where
  "py310_hasjabs = [111, 112, 113, 114, 115, 121]"

definition py310_hasjrel :: "int list" where
  "py310_hasjrel = [93, 110, 122, 143, 154]"

definition py310_opname :: "(int \<times> string) list" where
  "py310_opname = [
     (93, ''FOR_ITER''), (110, ''JUMP_FORWARD''), (111, ''JUMP_IF_FALSE_OR_POP''),
     (112, ''JUMP_IF_TRUE_OR_POP''), (113, ''JUMP_ABSOLUTE''), (114, ''POP_JUMP_IF_FALSE''),
     (115, ''POP_JUMP_IF_TRUE''), (121, ''JUMP_IF_NOT_EXC_MATCH''), (122, ''SETUP_FINALLY''),
     (143, ''SETUP_WITH''), (154, ''SETUP_ASYNC_WITH'')]"

definition py311_hasjabs :: "int list" where
  "py311_hasjabs = []"

definition py311_hasjrel :: "int list" where
  "py311_hasjrel = [93, 110, 111, 112, 114, 115, 123, 128, 129, 134, 140, 173, 174, 175, 176]"

definition py311_opname :: "(int \<times> string) list" where
  "py311_opname = [
     (93, ''FOR_ITER''), (110, ''JUMP_FORWARD''), (111, ''JUMP_IF_FALSE_OR_POP''),
     (112, ''JUMP_IF_TRUE_OR_POP''), (114, ''POP_JUMP_FORWARD_IF_FALSE''),
     (115, ''POP_JUMP_FORWARD_IF_TRUE''), (123, ''SEND''),
     (128, ''POP_JUMP_FORWARD_IF_NOT_NONE''), (129, ''POP_JUMP_FORWARD_IF_NONE''),
     (134, ''JUMP_BACKWARD_NO_INTERRUPT''), (140, ''JUMP_BACKWARD''),
     (173, ''POP_JUMP_BACKWARD_IF_NOT_NONE''), (174, ''POP_JUMP_BACKWARD_IF_NONE''),
     (175, ''POP_JUMP_BACKWARD_IF_FALSE''), (176, ''POP_JUMP_BACKWARD_IF_TRUE'')]"


section \<open>Benchmark harness output directory (benchmarks/nanogpt\_training\_bench.py)\<close>









section \<open>Traces and the autograd bridge (thunder/executors/torch\_autograd.py)\<close>

subsection \<open>Values, bound symbols, traces\<close>

text \<open>
  Identifiers of the operations the source inspects or records; any other operation of a
  trace is \<open>OTHER\<close> with its name.
\<close>

datatype prim_id =
  RETURN | UNPACK_TRIVIAL | UNPACK_SEQUENCE | TRUE_DIVIDE | ALL_REDUCE | WAIT | OTHER string

text \<open>
  Python values that occur in traces. A proxy is known by its name (\<open>variableify\<close> and
  \<open>ProxyDict\<close> look at nothing else). The proxy that a traced call returns is named by the
  call: \<open>ResultOf op vals\<close> is the name of the output of \<open>op\<close> applied to \<open>vals\<close>.
  \<open>FloatV n\<close> is \<open>float(n)\<close> for an integer \<open>n\<close>. A process group is known by its
  size (\<open>pg.size()\<close>).
\<close>

datatype process_group = ProcessGroup (pg_size: nat)

datatype pyval =
    NoneV
  | BoolV bool
  | IntV int
  | FloatV int
  | StrV string
  | TensorProxy pname
  | FutureTensorProxy pname
  | CollectionProxy pname
  | TupleV "pyval list"
  | GroupV process_group
and pname =
    Name string
  | ResultOf prim_id "pyval list"

record bound_symbol =
  sym_id :: prim_id
  bsym_args :: "pyval list"
  bsym_kwargs :: "(string \<times> pyval) list"
  bsym_output :: pyval

record trace =
  bound_symbols :: "bound_symbol list"
  trace_args :: "pyval list"
  trace_output :: pyval

subsection \<open>Python operations that can raise\<close>

definition bindS :: "error + 'a \<Rightarrow> ('a \<Rightarrow> error + 'b) \<Rightarrow> error + 'b" where
  "bindS r f = (case r of Inl e \<Rightarrow> Inl e | Inr x \<Rightarrow> f x)"

definition assertS :: "bool \<Rightarrow> error + unit" where
  "assertS b = (if b then Inr () else Inl AssertionError)"

text \<open>\<open>xs[i]\<close> for a list and a non-negative index, and \<open>xs[-1]\<close>.\<close>

definition py_index :: "'a list \<Rightarrow> nat \<Rightarrow> error + 'a" where
  "py_index xs i = (if i < length xs then Inr (xs ! i) else Inl IndexError)"

definition py_last :: "'a list \<Rightarrow> error + 'a" where
  "py_last xs = (if xs = [] then Inl IndexError else Inr (last xs))"

text \<open>The items of a value that is iterated or subscripted: only a tuple has them.\<close>

definition py_items :: "pyval \<Rightarrow> error + pyval list" where
  "py_items v = (case v of TupleV xs \<Rightarrow> Inr xs | _ \<Rightarrow> Inl TypeError)"

definition py_item :: "pyval \<Rightarrow> nat \<Rightarrow> error + pyval" where
  "py_item v i = bindS (py_items v) (\<lambda>xs. py_index xs i)"

text \<open>The attribute \<open>name\<close>: proxies have it.\<close>

definition py_name :: "pyval \<Rightarrow> error + pname" where
  "py_name v = (case v of TensorProxy n \<Rightarrow> Inr n | FutureTensorProxy n \<Rightarrow> Inr n
                | CollectionProxy n \<Rightarrow> Inr n | _ \<Rightarrow> Inl AttributeError)"

text \<open>\<open>d[k]\<close> and \<open>d.get(k, default)\<close> on a dictionary with string keys.\<close>

definition dict_item :: "(string \<times> pyval) list \<Rightarrow> string \<Rightarrow> error + pyval" where
  "dict_item d k = (case map_of d k of None \<Rightarrow> Inl KeyError | Some v \<Rightarrow> Inr v)"

definition dict_get :: "(string \<times> pyval) list \<Rightarrow> string \<Rightarrow> pyval \<Rightarrow> pyval" where
  "dict_get d k dflt = (case map_of d k of None \<Rightarrow> dflt | Some v \<Rightarrow> v)"

text \<open>Truth value of a Python object in a condition.\<close>

definition truthy :: "pyval \<Rightarrow> bool" where
  "truthy v = (case v of NoneV \<Rightarrow> False | BoolV b \<Rightarrow> b | IntV i \<Rightarrow> i \<noteq> 0
               | FloatV i \<Rightarrow> i \<noteq> 0 | StrV s \<Rightarrow> s \<noteq> [] | TupleV xs \<Rightarrow> xs \<noteq> []
               | _ \<Rightarrow> True)"

text \<open>
  Modelled from the spec: \<open>thunder.core.utils.safe_zip\<close> is not among the source files.
  It is \<open>zip\<close> that raises when its arguments differ in length, so that there is one
  gradient slot per flat input.
\<close>

definition safe_zip :: "'a list \<Rightarrow> 'b list \<Rightarrow> error + ('a \<times> 'b) list" where
  "safe_zip xs ys = (if length xs = length ys then Inr (zip xs ys)
                     else Inl (ValueError ''safe_zip: length mismatch''))"

text \<open>
  Modelled from the spec: \<open>tree_flatten\<close> (thunder.core.pytree) is not among the source
  files. On trace values it gives the leaves of nested tuples in order; \<open>None\<close> is a leaf
  (a return slot of its own).
\<close>

fun tree_flatten :: "pyval \<Rightarrow> pyval list" where
  "tree_flatten (TupleV xs) = concat (map tree_flatten xs)"
| "tree_flatten v = [v]"

subsection \<open>Effects\<close>

text \<open>
  A computation that may raise and may change a state \<open>'s\<close>: it returns the exception or
  the value, and the state it leaves.
\<close>

type_synonym ('a, 's) eff = "'s \<Rightarrow> (error + 'a) \<times> 's"

definition returnE :: "'a \<Rightarrow> ('a, 's) eff" where
  "returnE x = (\<lambda>s. (Inr x, s))"

definition raiseE :: "error \<Rightarrow> ('a, 's) eff" where
  "raiseE e = (\<lambda>s. (Inl e, s))"

definition liftE :: "error + 'a \<Rightarrow> ('a, 's) eff" where
  "liftE r = (\<lambda>s. (r, s))"

definition bindE :: "('a, 's) eff \<Rightarrow> ('a \<Rightarrow> ('b, 's) eff) \<Rightarrow> ('b, 's) eff" where
  "bindE m f = (\<lambda>s. case m s of (Inl e, s') \<Rightarrow> (Inl e, s') | (Inr x, s') \<Rightarrow> f x s')"

subsection \<open>The split routine\<close>

text \<open>
  A leaf of the flattened call arguments: a \<open>torch.Tensor\<close> or a \<open>TensorProxy\<close>, each with
  its \<open>requires_grad\<close> attribute, or anything else.
\<close>

datatype flat_arg = TorchTensor bool | TensorProxyArg bool | OtherArg

text \<open>\<open>isinstance(arg, tensor_cls) and arg.requires_grad\<close>\<close>

definition requires_grad_of :: "flat_arg \<Rightarrow> bool" where
  "requires_grad_of arg =
     (case arg of TorchTensor rg \<Rightarrow> rg | TensorProxyArg rg \<Rightarrow> rg | OtherArg \<Rightarrow> False)"

definition requires_grad_mask :: "flat_arg list \<Rightarrow> bool list" where
  "requires_grad_mask flat_args = map requires_grad_of flat_args"

text \<open>
  What the routine returns: the callable of a trace (\<open>trace.python_callable()\<close>), possibly
  wrapped in a \<open>CUDAGraphExecutor\<close> with its \<open>num_constant_args\<close>.
\<close>

datatype callable = PythonCallable trace | CUDAGraphExecutor callable int

record compile_data =
  use_cudagraphs :: bool
  num_constant_args :: int

record compile_stats =
  stats_primal_trace :: "trace option"
  stats_forward_last_traces :: "trace list"
  stats_backward_last_traces :: "trace list"

text \<open>
  The passes and helpers of the compiler that the routine calls and that are not among the
  source files. Each is a parameter; a pass may raise and may change the state \<open>'w\<close> of
  everything outside the routine. \<open>bind_arguments\<close> is \<open>signature(func).bind\<close> followed by
  \<open>apply_defaults\<close>, \<open>tree_flatten_args\<close> the leaves of the bound arguments.
\<close>

record ('fn, 'call, 'ba, 'v, 'w) externals =
  bind_arguments :: "'fn \<Rightarrow> 'call \<Rightarrow> error + 'ba"
  tree_flatten_args :: "'ba \<Rightarrow> flat_arg list"
  make_trace :: "'fn \<Rightarrow> 'ba \<Rightarrow> (trace, 'w) eff"
  sort_data_parallel_syncs :: "trace \<Rightarrow> (trace, 'w) eff"
  forward_and_backward_from_trace :: "trace \<Rightarrow> (trace \<times> trace, 'w) eff"
  transform_for_execution :: "trace \<Rightarrow> pyval \<Rightarrow> (trace, 'w) eff"
  variableify :: "pyval \<Rightarrow> 'v"
  replace_redundant_inputs :: "('v \<rightharpoonup> pyval) \<Rightarrow> bound_symbol list \<Rightarrow> (bound_symbol list, 'w) eff"
  from_bsym_swap_proxies :: "bound_symbol \<Rightarrow> ('v \<rightharpoonup> pyval) \<Rightarrow> (bound_symbol, 'w) eff"
  rematerialize_forward_and_backward :: "trace \<Rightarrow> trace \<Rightarrow> (trace \<times> trace, 'w) eff"
  sort_waits :: "trace \<Rightarrow> (trace, 'w) eff"
  del_last_used :: "trace \<Rightarrow> (trace, 'w) eff"

text \<open>
  The state of a run: the outside world and the \<open>compile_stats\<close> object (\<open>None\<close> when no
  statistics record was supplied). A pass acts on the world only.
\<close>

definition ext :: "('a, 'w) eff \<Rightarrow> ('a, 'w \<times> compile_stats option) eff" where
  "ext m = (\<lambda>(w, stats). case m w of (r, w') \<Rightarrow> (r, (w', stats)))"

text \<open>
  Lines 60 to 69: the last bound symbol of the backward trace must be the return; its
  first argument is zipped with the mask and every gradient whose input does not require
  one becomes \<open>None\<close>; the return is replaced by one whose only argument is the filtered
  tuple.
\<close>

definition update_backward_return :: "trace \<Rightarrow> bool list \<Rightarrow> error + trace" where
  "update_backward_return bw_trace rg_mask =
     bindS (py_last (bound_symbols bw_trace)) (\<lambda>ret.
     bindS (assertS (sym_id ret = RETURN)) (\<lambda>_.
     bindS (py_index (bsym_args ret) 0) (\<lambda>grads.
     bindS (py_items grads) (\<lambda>arg_grads.
     bindS (safe_zip arg_grads rg_mask) (\<lambda>pairs.
       let filtered_grads =
             map (\<lambda>(arg_grad, requires_grad). if requires_grad then arg_grad else NoneV) pairs
       in Inr (bw_trace\<lparr>bound_symbols :=
                 (bound_symbols bw_trace)
                   [length (bound_symbols bw_trace) - 1 :=
                      ret\<lparr>bsym_args := [TupleV filtered_grads]\<rparr>]\<rparr>))))))"

text \<open>
  Lines 81 to 102: the substitution map from the saved tensors the backward trace expects
  to the ones the optimized forward trace returns, applied to the bound symbols, and to
  the unpacking at position 4 with its outputs. A later pair of the \<open>zip\<close> overrides an
  earlier one with the same key, as in the dictionary comprehension.
\<close>

definition swap_map_of :: "(pyval \<Rightarrow> 'v) \<Rightarrow> pyval list \<Rightarrow> pyval list \<Rightarrow> ('v \<rightharpoonup> pyval)" where
  "swap_map_of var xs ys =
     fold (\<lambda>(x, y) m. if var x \<noteq> var y then m(var x \<mapsto> y) else m) (zip xs ys) Map.empty"

definition patch_saved_tensors ::
  "('fn, 'call, 'ba, 'v, 'w) externals \<Rightarrow> trace \<Rightarrow> trace
     \<Rightarrow> (trace, 'w \<times> compile_stats option) eff" where
  "patch_saved_tensors E bw_trace fw_extrace =
     bindE (liftE (bindS (py_index (trace_args bw_trace) 0) (\<lambda>a. py_item a 0)))
       (\<lambda>original_bw_saved_tensors_for_backward.
     bindE (liftE (bindS (py_item (trace_output fw_extrace) 1) (\<lambda>a. py_item a 0)))
       (\<lambda>new_fw_saved_tensors_for_backward.
     bindE (liftE (py_items original_bw_saved_tensors_for_backward)) (\<lambda>xs.
     bindE (liftE (py_items new_fw_saved_tensors_for_backward)) (\<lambda>ys.
     let swap_map = swap_map_of (variableify E) xs ys in
     bindE (ext (replace_redundant_inputs E swap_map (bound_symbols bw_trace))) (\<lambda>new_bsyms.
     bindE (liftE (py_index (bound_symbols bw_trace) 0)) (\<lambda>b0.
     bindE (liftE (assertS (sym_id b0 = UNPACK_TRIVIAL))) (\<lambda>_.
     bindE (liftE (dict_item (bsym_kwargs b0) ''name'')) (\<lambda>nm.
     bindE (liftE (assertS (nm = StrV ''saved_for_backward''))) (\<lambda>_.
     bindE (liftE (py_index (bound_symbols bw_trace) 4)) (\<lambda>b4.
     bindE (liftE (assertS (sym_id b4 = UNPACK_SEQUENCE))) (\<lambda>_.
     bindE (liftE (bindS (py_index (bsym_args b4) 0) py_name)) (\<lambda>c0.
     bindE (liftE (assertS (c0 = Name ''C0''))) (\<lambda>_.
     bindE (liftE (py_index new_bsyms 4)) (\<lambda>n4.
     bindE (ext (from_bsym_swap_proxies E n4 swap_map)) (\<lambda>n4'.
       returnE (bw_trace\<lparr>bound_symbols := new_bsyms[4 := n4']\<rparr>))))))))))))))))"

text \<open>
  Lines 121 to 133: with a statistics record, the three traces are stored on it, and then,
  if \<open>compile_data.use_cudagraphs\<close> or the configuration's \<open>use_cudagraphs\<close> is true, both
  callables are wrapped; in every other case the plain callables are returned. Without
  \<open>compile_data\<close> the attribute access raises.
\<close>

definition saved_tensors_count :: "trace \<Rightarrow> error + int" where
  "saved_tensors_count bw_extrace =
     bindS (py_index (trace_args bw_extrace) 0) (\<lambda>a.
     bindS (py_item a 0) (\<lambda>saved.
     bindS (py_items saved) (\<lambda>xs. Inr (int (length xs)))))"

definition wrap_callables ::
  "(string \<times> pyval) list \<Rightarrow> compile_data option \<Rightarrow> trace \<Rightarrow> trace \<Rightarrow> trace
     \<Rightarrow> (callable \<times> callable, 'w \<times> compile_stats option) eff" where
  "wrap_callables compile_config compile_data primal_trace fw_extrace bw_extrace =
     (\<lambda>(w, stats).
        case stats of
          None \<Rightarrow> (Inr (PythonCallable fw_extrace, PythonCallable bw_extrace), (w, None))
        | Some cs \<Rightarrow>
            let s' = (w, Some (cs\<lparr>stats_primal_trace := Some primal_trace,
                                   stats_forward_last_traces := [fw_extrace],
                                   stats_backward_last_traces := [bw_extrace]\<rparr>))
            in (case compile_data of
                  None \<Rightarrow> (Inl AttributeError, s')
                | Some cd \<Rightarrow>
                    if use_cudagraphs cd
                       \<or> truthy (dict_get compile_config ''use_cudagraphs'' (BoolV False))
                    then (case saved_tensors_count bw_extrace of
                            Inl e \<Rightarrow> (Inl e, s')
                          | Inr n \<Rightarrow>
                              (Inr (CUDAGraphExecutor (PythonCallable fw_extrace)
                                      (num_constant_args cd),
                                    CUDAGraphExecutor (PythonCallable bw_extrace) n), s'))
                    else (Inr (PythonCallable fw_extrace, PythonCallable bw_extrace), s')))"

text \<open>\<open>split_forward_backward(*args, **kwargs)\<close>, statement by statement.\<close>

definition split_forward_backward ::
  "('fn, 'call, 'ba, 'v, 'w) externals \<Rightarrow> 'fn \<Rightarrow> (string \<times> pyval) list
     \<Rightarrow> compile_data option \<Rightarrow> 'call
     \<Rightarrow> (callable \<times> callable, 'w \<times> compile_stats option) eff" where
  "split_forward_backward E func compile_config compile_data call =
     bindE (liftE (bind_arguments E func call)) (\<lambda>ba.
     let flat_args = tree_flatten_args E ba;
         rg_mask = requires_grad_mask flat_args;
         executors_list = dict_get compile_config ''executors_list'' NoneV
     in
     if \<not> (\<exists>b \<in> set rg_mask. b) then
       raiseE (RuntimeError
         ''PyTorch's Autograd interface requires at least one tensor input with requires_grad=True'')
     else
     bindE (ext (make_trace E func ba)) (\<lambda>primal_trace.
     bindE (ext (sort_data_parallel_syncs E primal_trace)) (\<lambda>primal_trace.
     bindE (ext (forward_and_backward_from_trace E primal_trace)) (\<lambda>(fw_trace, bw_trace).
     bindE (liftE (update_backward_return bw_trace rg_mask)) (\<lambda>bw_trace.
     bindE (ext (transform_for_execution E fw_trace executors_list)) (\<lambda>fw_extrace.
     bindE (patch_saved_tensors E bw_trace fw_extrace) (\<lambda>bw_trace.
     bindE (ext (transform_for_execution E bw_trace executors_list)) (\<lambda>bw_extrace.
     bindE (ext (rematerialize_forward_and_backward E fw_extrace bw_extrace))
       (\<lambda>(fw_extrace, bw_extrace).
     bindE (ext (sort_waits E bw_extrace)) (\<lambda>bw_extrace.
     bindE (ext (del_last_used E fw_extrace)) (\<lambda>fw_extrace.
     bindE (ext (del_last_used E bw_extrace)) (\<lambda>bw_extrace.
       wrap_callables compile_config compile_data primal_trace fw_extrace bw_extrace
     ))))))))))))"

subsection \<open>The gradient all-reduce rewrite\<close>

definition is_TensorProxy :: "pyval \<Rightarrow> bool" where
  "is_TensorProxy v = (case v of TensorProxy n \<Rightarrow> True | _ \<Rightarrow> False)"

text \<open>
  Modelled from the spec: the traced operations \<open>ltorch.true_divide\<close>, \<open>ltorch.all_reduce\<close>,
  \<open>dist_prims.wait\<close> and \<open>prims.python_return\<close> are not among the source files. Called
  while a trace is being rewritten, each records one bound symbol and returns the symbol's
  output proxy: a tensor for the division, a future for the asynchronous all-reduce (a
  sum over the group), a tensor for the wait, which takes a future and nothing else.
\<close>

definition true_divide :: "pyval \<Rightarrow> pyval \<Rightarrow> bound_symbol \<times> pyval" where
  "true_divide a b =
     (let out = TensorProxy (ResultOf TRUE_DIVIDE [a, b])
      in (\<lparr>sym_id = TRUE_DIVIDE, bsym_args = [a, b], bsym_kwargs = [], bsym_output = out\<rparr>,
          out))"

definition all_reduce :: "pyval \<Rightarrow> pyval \<Rightarrow> bool \<Rightarrow> bound_symbol \<times> pyval" where
  "all_reduce a grp async_op =
     (let n = ResultOf ALL_REDUCE [a, grp, BoolV async_op];
          out = (if async_op then FutureTensorProxy n else TensorProxy n)
      in (\<lparr>sym_id = ALL_REDUCE, bsym_args = [a],
           bsym_kwargs = [(''group'', grp), (''async_op'', BoolV async_op)],
           bsym_output = out\<rparr>, out))"

definition wait :: "pyval \<Rightarrow> error + bound_symbol \<times> pyval" where
  "wait a =
     (case a of
        FutureTensorProxy n \<Rightarrow>
          (let out = TensorProxy (ResultOf WAIT [a])
           in Inr (\<lparr>sym_id = WAIT, bsym_args = [a], bsym_kwargs = [], bsym_output = out\<rparr>,
                   out))
      | _ \<Rightarrow> Inl TypeError)"

definition python_return :: "pyval list \<Rightarrow> bound_symbol" where
  "python_return vals =
     \<lparr>sym_id = RETURN, bsym_args = vals, bsym_kwargs = [], bsym_output = NoneV\<rparr>"

text \<open>
  Modelled from the spec: \<open>visitor_transform\<close> and \<open>VISIT_TYPE\<close> (thunder.core.transforms)
  are not among the source files. The transform passes once over the bound symbols of the
  trace; for each it calls the visitor, which records new bound symbols and answers how to
  place them: in place of the visited symbol, after it, before it, or not at all. The
  visitor's own state (here the table of the rewrite) is threaded through the calls.
\<close>

datatype VISIT_TYPE = INSERT_AFTER | INSERT_BEFORE | REPLACE | NO_OP

type_synonym 's visitor = "'s \<Rightarrow> bound_symbol \<Rightarrow> error + (VISIT_TYPE \<times> bound_symbol list \<times> 's)"

definition place :: "VISIT_TYPE \<Rightarrow> bound_symbol \<Rightarrow> bound_symbol list \<Rightarrow> bound_symbol list" where
  "place visit_type bsym recorded =
     (case visit_type of
        REPLACE \<Rightarrow> recorded
      | INSERT_AFTER \<Rightarrow> bsym # recorded
      | INSERT_BEFORE \<Rightarrow> recorded @ [bsym]
      | NO_OP \<Rightarrow> [bsym])"

fun visit_bsyms :: "'s visitor \<Rightarrow> 's \<Rightarrow> bound_symbol list \<Rightarrow> error + bound_symbol list" where
  "visit_bsyms visit s [] = Inr []"
| "visit_bsyms visit s (bsym # rest) =
     (case visit s bsym of
        Inl e \<Rightarrow> Inl e
      | Inr (visit_type, recorded, s') \<Rightarrow>
          (case visit_bsyms visit s' rest of
             Inl e \<Rightarrow> Inl e
           | Inr out \<Rightarrow> Inr (place visit_type bsym recorded @ out)))"

definition visitor_transform :: "trace \<Rightarrow> 's visitor \<Rightarrow> 's \<Rightarrow> error + trace" where
  "visitor_transform trace_from visit s =
     bindS (visit_bsyms visit s (bound_symbols trace_from))
       (\<lambda>bsyms. Inr (trace_from\<lparr>bound_symbols := bsyms\<rparr>))"

text \<open>
  \<open>grad_to_future\<close>, a \<open>ProxyDict\<close>: keyed by the name of a proxy. Every tensor among the
  gradients starts with the entry \<open>True\<close>.
\<close>

type_synonym grad_table = "pname \<rightharpoonup> pyval"

definition initial_grad_to_future :: "pyval list \<Rightarrow> grad_table" where
  "initial_grad_to_future gradients =
     fold (\<lambda>grad m. case grad of TensorProxy n \<Rightarrow> m(n \<mapsto> BoolV True) | _ \<Rightarrow> m)
       gradients Map.empty"

text \<open>
  The list comprehension of the return branch, left to right: a wait on the table's entry
  for a tensor, \<open>None\<close> for anything else.
\<close>

fun wait_gradients :: "grad_table \<Rightarrow> pyval list \<Rightarrow> error + (bound_symbol list \<times> pyval list)" where
  "wait_gradients grad_to_future [] = Inr ([], [])"
| "wait_gradients grad_to_future (grad # rest) =
     (case grad of
        TensorProxy n \<Rightarrow>
          (case grad_to_future n of
             None \<Rightarrow> Inl KeyError
           | Some entry \<Rightarrow>
               (case wait entry of
                  Inl e \<Rightarrow> Inl e
                | Inr (bsym, out) \<Rightarrow>
                    (case wait_gradients grad_to_future rest of
                       Inl e \<Rightarrow> Inl e
                     | Inr (bsyms, outs) \<Rightarrow> Inr (bsym # bsyms, out # outs))))
      | _ \<Rightarrow>
          (case wait_gradients grad_to_future rest of
             Inl e \<Rightarrow> Inl e
           | Inr (bsyms, outs) \<Rightarrow> Inr (bsyms, NoneV # outs)))"

text \<open>
  The loop over \<open>grads_of_bsym\<close>: divide by the world size, all-reduce asynchronously over
  the group, store the future in the table.
\<close>

fun allreduce_gradients ::
  "pyval \<Rightarrow> pyval \<Rightarrow> grad_table \<Rightarrow> pyval list \<Rightarrow> bound_symbol list \<times> grad_table" where
  "allreduce_gradients world_size pg grad_to_future [] = ([], grad_to_future)"
| "allreduce_gradients world_size pg grad_to_future (grad # rest) =
     (case true_divide grad world_size of (b1, preaveraged) \<Rightarrow>
      case all_reduce preaveraged pg True of (b2, future) \<Rightarrow>
      case allreduce_gradients world_size pg
             (case grad of TensorProxy n \<Rightarrow> grad_to_future(n \<mapsto> future) | _ \<Rightarrow> grad_to_future)
             rest of
        (bsyms, grad_to_future') \<Rightarrow> (b1 # b2 # bsyms, grad_to_future'))"

text \<open>
  \<open>bsym._flat_outs\<close> are the leaves of the output of the bound symbol; \<open>grads_of_bsym\<close>
  keeps the tensors that are keys of the table.
\<close>

definition grads_of_bsym :: "grad_table \<Rightarrow> bound_symbol \<Rightarrow> pyval list" where
  "grads_of_bsym grad_to_future bsym =
     filter (\<lambda>t. case t of TensorProxy n \<Rightarrow> grad_to_future n \<noteq> None | _ \<Rightarrow> False)
       (tree_flatten (bsym_output bsym))"

text \<open>\<open>AllReduceGradVisitor.__call__\<close>\<close>

definition AllReduceGradVisitor :: "pyval list \<Rightarrow> pyval \<Rightarrow> pyval \<Rightarrow> grad_table visitor" where
  "AllReduceGradVisitor gradients world_size pg grad_to_future bsym =
     (if sym_id bsym = RETURN then
        bindS (wait_gradients grad_to_future gradients) (\<lambda>(waits, vals).
          Inr (REPLACE, waits @ [python_return vals], grad_to_future))
      else
        let gs = grads_of_bsym grad_to_future bsym in
        if length gs = 0 then Inr (INSERT_AFTER, [], grad_to_future)
        else (case allreduce_gradients world_size pg grad_to_future gs of
                (bsyms, grad_to_future') \<Rightarrow> Inr (INSERT_AFTER, bsyms, grad_to_future')))"

text \<open>
  \<open>insert_bsym_to_allreduce_grads(backward_trace, process_group)\<close>. The default group
  (\<open>_get_default_group()\<close>) is a parameter.
\<close>

definition insert_bsym_to_allreduce_grads ::
  "process_group \<Rightarrow> trace \<Rightarrow> process_group option \<Rightarrow> error + trace" where
  "insert_bsym_to_allreduce_grads default_group backward_trace process_group =
     (let pg = (case process_group of None \<Rightarrow> default_group | Some g \<Rightarrow> g);
          world_size = FloatV (int (pg_size pg));
          gradients = tree_flatten (trace_output backward_trace);
          grad_to_future = initial_grad_to_future gradients
      in visitor_transform backward_trace
           (AllReduceGradVisitor gradients world_size (GroupV pg)) grad_to_future)"

text \<open>
  Vocabulary for the rewrite's result: the pre-averaged gradient, the future of its
  all-reduce, the tensor a wait returns, the two bound symbols of the communication for a
  gradient, and the tracked outputs of a bound symbol (the tensors among its flat outputs
  that occur in the gradients).
\<close>

definition preaveraged_grad :: "process_group \<Rightarrow> pyval \<Rightarrow> pyval" where
  "preaveraged_grad pg g = TensorProxy (ResultOf TRUE_DIVIDE [g, FloatV (int (pg_size pg))])"

definition allreduce_future :: "process_group \<Rightarrow> pyval \<Rightarrow> pyval" where
  "allreduce_future pg g =
     FutureTensorProxy (ResultOf ALL_REDUCE [preaveraged_grad pg g, GroupV pg, BoolV True])"

definition waited :: "pyval \<Rightarrow> pyval" where
  "waited future = TensorProxy (ResultOf WAIT [future])"

definition communication :: "process_group \<Rightarrow> pyval \<Rightarrow> bound_symbol list" where
  "communication pg g =
     [\<lparr>sym_id = TRUE_DIVIDE, bsym_args = [g, FloatV (int (pg_size pg))], bsym_kwargs = [],
       bsym_output = preaveraged_grad pg g\<rparr>,
      \<lparr>sym_id = ALL_REDUCE, bsym_args = [preaveraged_grad pg g],
       bsym_kwargs = [(''group'', GroupV pg), (''async_op'', BoolV True)],
       bsym_output = allreduce_future pg g\<rparr>]"

definition wait_symbol :: "process_group \<Rightarrow> pyval \<Rightarrow> bound_symbol" where
  "wait_symbol pg g =
     \<lparr>sym_id = WAIT, bsym_args = [allreduce_future pg g], bsym_kwargs = [],
      bsym_output = waited (allreduce_future pg g)\<rparr>"

definition tracked_outputs :: "pyval list \<Rightarrow> bound_symbol \<Rightarrow> pyval list" where
  "tracked_outputs gradients bsym =
     filter (\<lambda>t. is_TensorProxy t \<and> t \<in> set gradients) (tree_flatten (bsym_output bsym))"

subsection \<open>Vocabulary for the properties\<close>

text \<open>The table of the rewrite has exactly the tensors among the gradients as keys.\<close>

definition keys_are :: "grad_table \<Rightarrow> pyval list \<Rightarrow> bool" where
  "keys_are gtf gradients = (\<forall>n. (gtf n = None) = (TensorProxy n \<notin> set gradients))"

text \<open>
  The rewritten trace: every bound symbol before the return, followed by the communication
  for each of its tracked outputs; the return that waits.
\<close>

definition rewritten_body ::
  "process_group \<Rightarrow> pyval list \<Rightarrow> bound_symbol list \<Rightarrow> bound_symbol list" where
  "rewritten_body pg gradients body =
     concat (map (\<lambda>bsym. bsym # concat (map (communication pg) (tracked_outputs gradients bsym)))
               body)"

definition rewritten_return :: "process_group \<Rightarrow> pyval list \<Rightarrow> bound_symbol" where
  "rewritten_return pg gradients =
     python_return
       (map (\<lambda>g. if is_TensorProxy g then waited (allreduce_future pg g) else NoneV) gradients)"

text \<open>The arguments of the last bound symbol of a rewritten trace: the returned slots.\<close>

definition returned_slots :: "error + trace \<Rightarrow> error + pyval list" where
  "returned_slots r = bindS r (\<lambda>t. Inr (bsym_args (last (bound_symbols t))))"

subsection \<open>A concrete run\<close>

text \<open>
  The traces of \<open>f(x, y) = x * y\<close> with one saved tensor, in the layout the split routine
  expects of a backward trace: the unpacking of \<open>saved_for_backward\<close> first, that of
  \<open>C0\<close> at position 4, the return last. The example passes leave their traces as they are
  and count their calls in the world.
\<close>

definition example_primal_trace :: trace where
  "example_primal_trace = \<lparr>
     bound_symbols = [
       \<lparr>sym_id = OTHER ''mul'',
        bsym_args = [TensorProxy (Name ''x''), TensorProxy (Name ''y'')], bsym_kwargs = [],
        bsym_output = TensorProxy (Name ''out'')\<rparr>,
       \<lparr>sym_id = RETURN, bsym_args = [TensorProxy (Name ''out'')],
        bsym_kwargs = [], bsym_output = NoneV\<rparr>],
     trace_args = [TensorProxy (Name ''x''), TensorProxy (Name ''y'')],
     trace_output = TensorProxy (Name ''out'')\<rparr>"

definition example_bw_trace :: trace where
  "example_bw_trace = \<lparr>
     bound_symbols = [
       \<lparr>sym_id = UNPACK_TRIVIAL, bsym_args = [],
        bsym_kwargs = [(''name'', StrV ''saved_for_backward'')],
        bsym_output = CollectionProxy (Name ''saved_for_backward'')\<rparr>,
       \<lparr>sym_id = UNPACK_TRIVIAL, bsym_args = [],
        bsym_kwargs = [(''name'', StrV ''cotangents'')],
        bsym_output = CollectionProxy (Name ''cotangents'')\<rparr>,
       \<lparr>sym_id = UNPACK_SEQUENCE,
        bsym_args = [CollectionProxy (Name ''saved_for_backward''), IntV 2], bsym_kwargs = [],
        bsym_output = TupleV [CollectionProxy (Name ''C0''), CollectionProxy (Name ''C1'')]\<rparr>,
       \<lparr>sym_id = UNPACK_SEQUENCE,
        bsym_args = [CollectionProxy (Name ''cotangents''), IntV 1], bsym_kwargs = [],
        bsym_output = TupleV [TensorProxy (Name ''t0'')]\<rparr>,
       \<lparr>sym_id = UNPACK_SEQUENCE,
        bsym_args = [CollectionProxy (Name ''C0''), IntV 1], bsym_kwargs = [],
        bsym_output = TupleV [TensorProxy (Name ''x'')]\<rparr>,
       \<lparr>sym_id = OTHER ''mul'',
        bsym_args = [TensorProxy (Name ''t0''), TensorProxy (Name ''x'')], bsym_kwargs = [],
        bsym_output = TensorProxy (Name ''g0'')\<rparr>,
       \<lparr>sym_id = OTHER ''neg'',
        bsym_args = [TensorProxy (Name ''t0'')], bsym_kwargs = [],
        bsym_output = TensorProxy (Name ''g1'')\<rparr>,
       \<lparr>sym_id = RETURN,
        bsym_args = [TupleV [TensorProxy (Name ''g0''), TensorProxy (Name ''g1'')]],
        bsym_kwargs = [], bsym_output = NoneV\<rparr>],
     trace_args = [TupleV [TupleV [TensorProxy (Name ''x'')], TupleV []],
                   TupleV [TensorProxy (Name ''t0'')]],
     trace_output = TupleV [TensorProxy (Name ''g0''), TensorProxy (Name ''g1'')]\<rparr>"

definition example_fw_trace :: trace where
  "example_fw_trace = \<lparr>
     bound_symbols = [
       \<lparr>sym_id = OTHER ''mul'',
        bsym_args = [TensorProxy (Name ''x''), TensorProxy (Name ''y'')], bsym_kwargs = [],
        bsym_output = TensorProxy (Name ''out'')\<rparr>,
       \<lparr>sym_id = RETURN,
        bsym_args = [TupleV [TupleV [TensorProxy (Name ''out'')],
                             TupleV [TupleV [TensorProxy (Name ''x'')], TupleV []]]],
        bsym_kwargs = [], bsym_output = NoneV\<rparr>],
     trace_args = [TensorProxy (Name ''x''), TensorProxy (Name ''y'')],
     trace_output = TupleV [TupleV [TensorProxy (Name ''out'')],
                            TupleV [TupleV [TensorProxy (Name ''x'')], TupleV []]]\<rparr>"

definition example_externals :: "(unit, flat_arg list, flat_arg list, pyval, nat) externals" where
  "example_externals = \<lparr>
     bind_arguments = (\<lambda>func call. Inr call),
     tree_flatten_args = (\<lambda>ba. ba),
     make_trace = (\<lambda>func ba w. (Inr example_primal_trace, Suc w)),
     sort_data_parallel_syncs = (\<lambda>t w. (Inr t, Suc w)),
     forward_and_backward_from_trace = (\<lambda>t w. (Inr (example_fw_trace, example_bw_trace), Suc w)),
     transform_for_execution = (\<lambda>t executors w. (Inr t, Suc w)),
     variableify = (\<lambda>v. v),
     replace_redundant_inputs = (\<lambda>swap_map bsyms w. (Inr bsyms, Suc w)),
     from_bsym_swap_proxies = (\<lambda>bsym swap_map w. (Inr bsym, Suc w)),
     rematerialize_forward_and_backward = (\<lambda>fw bw w. (Inr (fw, bw), Suc w)),
     sort_waits = (\<lambda>t w. (Inr t, Suc w)),
     del_last_used = (\<lambda>t w. (Inr t, Suc w))\<rparr>"

definition example_stats :: compile_stats where
  "example_stats = \<lparr>stats_primal_trace = None, stats_forward_last_traces = [],
                     stats_backward_last_traces = []\<rparr>"

text \<open>The example backward trace after the gradient of the second input is dropped.\<close>

definition example_bw_filtered :: trace where
  "example_bw_filtered = example_bw_trace\<lparr>bound_symbols :=
     (bound_symbols example_bw_trace)[7 :=
        \<lparr>sym_id = RETURN, bsym_args = [TupleV [TensorProxy (Name ''g0''), NoneV]],
         bsym_kwargs = [], bsym_output = NoneV\<rparr>]\<rparr>"

text \<open>
  A backward trace that returns two gradient tensors and one value that is neither a
  tensor nor \<open>None\<close>.
\<close>

definition example_grad_body :: "bound_symbol list" where
  "example_grad_body = [
     \<lparr>sym_id = OTHER ''mul'',
      bsym_args = [TensorProxy (Name ''t0''), TensorProxy (Name ''x'')], bsym_kwargs = [],
      bsym_output = TensorProxy (Name ''g0'')\<rparr>,
     \<lparr>sym_id = OTHER ''neg'',
      bsym_args = [TensorProxy (Name ''t0'')], bsym_kwargs = [],
      bsym_output = TensorProxy (Name ''g1'')\<rparr>]"

definition example_grad_return :: bound_symbol where
  "example_grad_return =
     \<lparr>sym_id = RETURN,
      bsym_args = [TupleV [TensorProxy (Name ''g0''), TensorProxy (Name ''g1''), IntV 7]],
      bsym_kwargs = [], bsym_output = NoneV\<rparr>"

definition example_grad_trace :: trace where
  "example_grad_trace = \<lparr>
     bound_symbols = example_grad_body @ [example_grad_return],
     trace_args = [TensorProxy (Name ''t0''), TensorProxy (Name ''x'')],
     trace_output = TupleV [TensorProxy (Name ''g0''), TensorProxy (Name ''g1''), IntV 7]\<rparr>"

subsection \<open>The routine before and after the gradient filter\<close>

text \<open>
  Lines 50 to 58 of \<open>split_forward_backward\<close>: the trace of the function, the sorting of its
  synchronizations, its differentiation into a forward and a backward trace.
\<close>

definition differentiate ::
  "('fn, 'call, 'ba, 'v, 'w) externals \<Rightarrow> 'fn \<Rightarrow> 'ba
     \<Rightarrow> (trace \<times> trace \<times> trace, 'w \<times> compile_stats option) eff" where
  "differentiate E func ba =
     bindE (ext (make_trace E func ba)) (\<lambda>primal_trace.
     bindE (ext (sort_data_parallel_syncs E primal_trace)) (\<lambda>primal_trace.
     bindE (ext (forward_and_backward_from_trace E primal_trace)) (\<lambda>(fw_trace, bw_trace).
       returnE (primal_trace, fw_trace, bw_trace))))"

text \<open>
  Lines 71 to 133 of \<open>split_forward_backward\<close>: everything the routine does with the
  backward trace once its return has been filtered.
\<close>

definition split_after_filter ::
  "('fn, 'call, 'ba, 'v, 'w) externals \<Rightarrow> (string \<times> pyval) list \<Rightarrow> compile_data option
     \<Rightarrow> trace \<Rightarrow> trace \<Rightarrow> trace
     \<Rightarrow> (callable \<times> callable, 'w \<times> compile_stats option) eff" where
  "split_after_filter E compile_config compile_data primal_trace fw_trace bw_trace =
     (let executors_list = dict_get compile_config ''executors_list'' NoneV in
     bindE (ext (transform_for_execution E fw_trace executors_list)) (\<lambda>fw_extrace.
     bindE (patch_saved_tensors E bw_trace fw_extrace) (\<lambda>bw_trace.
     bindE (ext (transform_for_execution E bw_trace executors_list)) (\<lambda>bw_extrace.
     bindE (ext (rematerialize_forward_and_backward E fw_extrace bw_extrace))
       (\<lambda>(fw_extrace, bw_extrace).
     bindE (ext (sort_waits E bw_extrace)) (\<lambda>bw_extrace.
     bindE (ext (del_last_used E fw_extrace)) (\<lambda>fw_extrace.
     bindE (ext (del_last_used E bw_extrace)) (\<lambda>bw_extrace.
       wrap_callables compile_config compile_data primal_trace fw_extrace bw_extrace
     ))))))))"

text \<open>
  The arguments of the final return of a trace: those of its last bound symbol. The trace
  behind a returned callable.
\<close>

definition return_args_of :: "bound_symbol list \<Rightarrow> error + pyval list" where
  "return_args_of bsyms = bindS (py_last bsyms) (\<lambda>ret. Inr (bsym_args ret))"

definition final_return :: "trace \<Rightarrow> error + pyval list" where
  "final_return t = return_args_of (bound_symbols t)"

fun callable_trace :: "callable \<Rightarrow> trace" where
  "callable_trace (PythonCallable t) = t"
| "callable_trace (CUDAGraphExecutor c n) = callable_trace c"

text \<open>
  The passes that run after the filter keep the final return of the backward trace: the
  substitution keeps the number of bound symbols and the arguments of the last one, and
  execution planning, rematerialization, the sorting of waits and dead-value elimination
  return a trace with the same final return arguments.
\<close>

definition passes_keep_return :: "('fn, 'call, 'ba, 'v, 'w) externals \<Rightarrow> bool" where
  "passes_keep_return E =
     ((\<forall>swap_map bsyms w bsyms' w'.
         replace_redundant_inputs E swap_map bsyms w = (Inr bsyms', w')
         \<longrightarrow> length bsyms' = length bsyms \<and> return_args_of bsyms' = return_args_of bsyms)
    \<and> (\<forall>t executors w t' w'.
         transform_for_execution E t executors w = (Inr t', w')
         \<longrightarrow> final_return t' = final_return t)
    \<and> (\<forall>fw bw w fw' bw' w'.
         rematerialize_forward_and_backward E fw bw w = (Inr (fw', bw'), w')
         \<longrightarrow> final_return bw' = final_return bw)
    \<and> (\<forall>t w t' w'. sort_waits E t w = (Inr t', w') \<longrightarrow> final_return t' = final_return t)
    \<and> (\<forall>t w t' w'. del_last_used E t w = (Inr t', w') \<longrightarrow> final_return t' = final_return t))"


section \<open>Properties of the stack-effect table\<close>

lemma and_pow_bit: "((k::int) AND 2 ^ n \<noteq> 0) = bit k n"
  by (simp add: and_exp_eq_0_iff_not_bit)

lemma and_bits:
  "((k::int) AND 1 \<noteq> 0) = bit k 0" "(k AND 2 \<noteq> 0) = bit k 1"
  "(k AND 4 \<noteq> 0) = bit k 2" "(k AND 8 \<noteq> 0) = bit k 3"
  using and_pow_bit[of k 0] and_pow_bit[of k 1] and_pow_bit[of k 2] and_pow_bit[of k 3]
  by simp_all

lemma fixed_entries_nonneg:
  "list_all (\<lambda>(k, p). 0 \<le> fst p \<and> 0 \<le> snd p) fixed_stack_effects_detail"
  unfolding fixed_stack_effects_detail_def by simp

text \<open>No instruction of the rule table is a key of the fixed table.\<close>

lemma rules_outside_fixed:
  "list_all (\<lambda>n. map_of fixed_stack_effects_detail n = None) (map fst spec_effect_rules)"
  by code_simp

lemma rule_refine_all:
  "\<forall>(n, f) \<in> set spec_effect_rules. map_of fixed_stack_effects_detail n = None \<longrightarrow>
     (\<forall>a j. stack_effect_detail n a j = Inr (f a j))"
  unfolding spec_effect_rules_def
  by (simp add: stack_effect_detail_def operand_bit_def and_bits)

lemma computed_nonneg:
  assumes "map_of fixed_stack_effects_detail opname = None" "0 \<le> oparg"
    and "stack_effect_detail opname oparg jump = Inr (a, b)"
  shows "0 \<le> a \<and> 0 \<le> b"
  using assms(3,2) unfolding stack_effect_detail_def assms(1) option.case
  by (auto split: if_splits)

lemma example_names_not_fixed:
  "map_of fixed_stack_effects_detail ''BUILD_TUPLE'' = None"
  "map_of fixed_stack_effects_detail ''BUILD_MAP'' = None"
  "map_of fixed_stack_effects_detail ''BUILD_CONST_KEY_MAP'' = None"
  "map_of fixed_stack_effects_detail ''UNPACK_EX'' = None"
  "map_of fixed_stack_effects_detail ''FOR_ITER'' = None"
  "map_of fixed_stack_effects_detail ''MAKE_FUNCTION'' = None"
  "map_of fixed_stack_effects_detail ''JUMP_BACKWARD'' = None"
  by code_simp+

text \<open>
  Claim C5. An instruction that is not in the fixed table and has a row in the rule table
  of the specification gets exactly the pair of that row, computed from the operand and the
  branch-taken flag. In particular \<open>BUILD_TUPLE\<close> with operand 5 gives (5, 1),
  \<open>BUILD_MAP\<close> with operand 3 gives (6, 1), \<open>BUILD_CONST_KEY_MAP\<close> with operand 4 gives
  (5, 1), \<open>UNPACK_EX\<close> with high byte 2 and low byte 3 gives (1, 6), and \<open>FOR_ITER\<close> gives
  (1, 0) when the branch is taken and (1, 2) otherwise.
\<close>

theorem computed_effect_matches_rule_table:
  "(map_of fixed_stack_effects_detail opname = None
      \<and> map_of spec_effect_rules opname = Some rule
      \<longrightarrow> stack_effect_detail opname oparg jump = Inr (rule oparg jump))
   \<and> stack_effect_detail ''BUILD_TUPLE'' 5 jump = Inr (5, 1)
   \<and> stack_effect_detail ''BUILD_MAP'' 3 jump = Inr (6, 1)
   \<and> stack_effect_detail ''BUILD_CONST_KEY_MAP'' 4 jump = Inr (5, 1)
   \<and> stack_effect_detail ''UNPACK_EX'' (2 * 256 + 3) jump = Inr (1, 6)
   \<and> stack_effect_detail ''FOR_ITER'' oparg True = Inr (1, 0)
   \<and> stack_effect_detail ''FOR_ITER'' oparg False = Inr (1, 2)"
proof -
  have general: "stack_effect_detail opname oparg jump = Inr (rule oparg jump)"
    if "map_of fixed_stack_effects_detail opname = None"
      and "map_of spec_effect_rules opname = Some rule"
  proof -
    from that(2) have "(opname, rule) \<in> set spec_effect_rules" by (rule map_of_SomeD)
    with rule_refine_all that(1) show ?thesis by blast
  qed
  have examples:
    "stack_effect_detail ''BUILD_TUPLE'' 5 jump = Inr (5, 1)"
    "stack_effect_detail ''BUILD_MAP'' 3 jump = Inr (6, 1)"
    "stack_effect_detail ''BUILD_CONST_KEY_MAP'' 4 jump = Inr (5, 1)"
    "stack_effect_detail ''UNPACK_EX'' (2 * 256 + 3) jump = Inr (1, 6)"
    "stack_effect_detail ''FOR_ITER'' oparg True = Inr (1, 0)"
    "stack_effect_detail ''FOR_ITER'' oparg False = Inr (1, 2)"
    by (simp_all add: stack_effect_detail_def example_names_not_fixed)
  from general examples show ?thesis by blast
qed

theorem computed_effect_matches_rule_table_witness:
  "map_of fixed_stack_effects_detail ''MAKE_FUNCTION'' = None
   \<and> map_of spec_effect_rules ''MAKE_FUNCTION'' \<noteq> None
   \<and> stack_effect_detail ''MAKE_FUNCTION'' 15 False = Inr (6, 1)"
proof -
  let ?rule = "\<lambda>operand (taken::bool).
       (2 + (operand_bit operand 0 + operand_bit operand 1
             + operand_bit operand 2 + operand_bit operand 3), 1::int)"
  have r: "map_of spec_effect_rules ''MAKE_FUNCTION'' = Some ?rule"
    by (simp add: spec_effect_rules_def)
  have "stack_effect_detail ''MAKE_FUNCTION'' 15 False = Inr (?rule 15 False)"
    using computed_effect_matches_rule_table [of "''MAKE_FUNCTION''" ?rule 15 False]
      example_names_not_fixed(6) r
    by blast
  then show ?thesis
    using example_names_not_fixed(6) r by (simp add: operand_bit_def)
qed

text \<open>
  Claim C6. For an instruction name that is a key of the fixed table, the result is the
  table's entry, whatever the operand and the jump flag: two calls that differ only in
  operand and flag return the same pair.
\<close>

theorem fixed_effect_independent_of_operand:
  assumes "map_of fixed_stack_effects_detail opname = Some eff"
  shows "stack_effect_detail opname oparg jump = Inr eff
       \<and> stack_effect_detail opname oparg' jump' = Inr eff"
  using assms by (simp add: stack_effect_detail_def)

theorem fixed_effect_independent_of_operand_witness:
  "map_of fixed_stack_effects_detail ''POP_TOP'' = Some (1, 0)
   \<and> stack_effect_detail ''POP_TOP'' 7 True = Inr (1, 0)
   \<and> stack_effect_detail ''POP_TOP'' (- 3) False = Inr (1, 0)"
proof -
  have h: "map_of fixed_stack_effects_detail ''POP_TOP'' = Some (1, 0)"
    by code_simp
  from fixed_effect_independent_of_operand [OF h, of 7 True "- 3" False] h
  show ?thesis by simp
qed

text \<open>
  Claim C8. An instruction name that is neither a key of the fixed table nor a row of the
  rule table makes \<open>stack_effect_detail\<close> raise the \<open>ValueError\<close> "Invalid opname ...",
  for every operand and flag; no pair is returned.
\<close>

theorem unknown_opname_raises:
  assumes "map_of fixed_stack_effects_detail opname = None"
    and "map_of spec_effect_rules opname = None"
  shows "stack_effect_detail opname oparg jump = Inl (ValueError (''Invalid opname '' @ opname))
       \<and> (\<nexists>eff. stack_effect_detail opname oparg jump = Inr eff)"
proof -
  from assms(2) have "opname \<notin> fst ` set spec_effect_rules"
    by (simp add: map_of_eq_None_iff)
  then have "stack_effect_detail opname oparg jump
      = Inl (ValueError (''Invalid opname '' @ opname))"
    unfolding spec_effect_rules_def
    by (simp add: stack_effect_detail_def assms(1))
  then show ?thesis by simp
qed

theorem unknown_opname_raises_witness:
  "map_of fixed_stack_effects_detail ''JUMP_BACKWARD'' = None
   \<and> map_of spec_effect_rules ''JUMP_BACKWARD'' = None
   \<and> stack_effect_detail ''JUMP_BACKWARD'' 2 True
       = Inl (ValueError ''Invalid opname JUMP_BACKWARD'')"
proof -
  have r: "map_of spec_effect_rules ''JUMP_BACKWARD'' = None"
    by (simp add: spec_effect_rules_def)
  from unknown_opname_raises [OF example_names_not_fixed(7) r, of 2 True]
    example_names_not_fixed(7) r
  show ?thesis by simp
qed

text \<open>
  Claim C10. Whenever \<open>stack_effect_detail\<close> returns a pair for a non-negative operand,
  both the pop count and the push count are non-negative.
\<close>

theorem stack_effect_nonneg:
  assumes "0 \<le> oparg" and "stack_effect_detail opname oparg jump = Inr (a, b)"
  shows "0 \<le> a \<and> 0 \<le> b"
proof (cases "map_of fixed_stack_effects_detail opname")
  case None
  then show ?thesis using assms computed_nonneg by blast
next
  case (Some eff)
  then have "(opname, eff) \<in> set fixed_stack_effects_detail" by (rule map_of_SomeD)
  with fixed_entries_nonneg have "0 \<le> fst eff \<and> 0 \<le> snd eff"
    by (auto simp: list_all_iff)
  moreover from Some assms(2) have "eff = (a, b)" by (simp add: stack_effect_detail_def)
  ultimately show ?thesis by simp
qed

theorem stack_effect_nonneg_witness:
  "(0::int) \<le> 515 \<and> stack_effect_detail ''UNPACK_EX'' 515 False = Inr (1, 6)
   \<and> (0::int) \<le> 1 \<and> (0::int) \<le> 6"
proof -
  have e: "stack_effect_detail ''UNPACK_EX'' 515 False = Inr (1, 6)"
    by (simp add: stack_effect_detail_def example_names_not_fixed)
  have h: "(0::int) \<le> 515" by simp
  from stack_effect_nonneg [OF h e] e show ?thesis by simp
qed

section \<open>Properties of the jump-instruction sets\<close>

lemma py310_jump_instruction_names:
  "jump_instruction_names py310_opname py310_hasjabs py310_hasjrel
     = {''FOR_ITER'', ''JUMP_FORWARD'', ''JUMP_IF_FALSE_OR_POP'', ''JUMP_IF_TRUE_OR_POP'',
        ''JUMP_ABSOLUTE'', ''POP_JUMP_IF_FALSE'', ''POP_JUMP_IF_TRUE'',
        ''JUMP_IF_NOT_EXC_MATCH'', ''SETUP_FINALLY'', ''SETUP_WITH'', ''SETUP_ASYNC_WITH''}"
  by (simp add: jump_instruction_names_def jump_instructions_def py310_opname_def
      py310_hasjabs_def py310_hasjrel_def)

lemma py311_jump_instruction_names:
  "jump_instruction_names py311_opname py311_hasjabs py311_hasjrel
     = {''FOR_ITER'', ''JUMP_FORWARD'', ''JUMP_IF_FALSE_OR_POP'', ''JUMP_IF_TRUE_OR_POP'',
        ''POP_JUMP_FORWARD_IF_FALSE'', ''POP_JUMP_FORWARD_IF_TRUE'', ''SEND'',
        ''POP_JUMP_FORWARD_IF_NOT_NONE'', ''POP_JUMP_FORWARD_IF_NONE'',
        ''JUMP_BACKWARD_NO_INTERRUPT'', ''JUMP_BACKWARD'',
        ''POP_JUMP_BACKWARD_IF_NOT_NONE'', ''POP_JUMP_BACKWARD_IF_NONE'',
        ''POP_JUMP_BACKWARD_IF_FALSE'', ''POP_JUMP_BACKWARD_IF_TRUE''}"
  by (simp add: jump_instruction_names_def jump_instructions_def py311_opname_def
      py311_hasjabs_def py311_hasjrel_def)

text \<open>
  Claim C4, as amended. \<open>unconditional_jump_names\<close> has exactly four members. Of these,
  exactly \<open>JUMP_ABSOLUTE\<close> and \<open>JUMP_FORWARD\<close> are names of jump instructions of CPython
  3.10, the targeted version; \<open>JUMP_BACKWARD\<close> and \<open>JUMP_BACKWARD_NO_INTERRUPT\<close> are not,
  they are jump instructions of CPython 3.11, where in turn \<open>JUMP_ABSOLUTE\<close> is none.
\<close>

theorem unconditional_jump_names_members:
  "card unconditional_jump_names = 4
   \<and> unconditional_jump_names \<inter> jump_instruction_names py310_opname py310_hasjabs py310_hasjrel
       = {''JUMP_ABSOLUTE'', ''JUMP_FORWARD''}
   \<and> unconditional_jump_names \<inter> jump_instruction_names py311_opname py311_hasjabs py311_hasjrel
       = {''JUMP_FORWARD'', ''JUMP_BACKWARD'', ''JUMP_BACKWARD_NO_INTERRUPT''}"
  unfolding py310_jump_instruction_names py311_jump_instruction_names
  by (auto simp: unconditional_jump_names_def)

text \<open>
  The claim as stated (four members, each the name of a jump instruction of the targeted
  version) fails for CPython 3.10: \<open>JUMP_BACKWARD\<close> is not among its jump instructions.
\<close>

theorem unconditional_jump_names_counterexample:
  "\<not> (card unconditional_jump_names = 4
      \<and> unconditional_jump_names
          \<subseteq> jump_instruction_names py310_opname py310_hasjabs py310_hasjrel)"
  unfolding py310_jump_instruction_names
  by (auto simp: unconditional_jump_names_def)

section \<open>Properties of the output directory name\<close>





section \<open>Properties of the split routine\<close>

lemma bindS_Inr_iff: "(bindS r f = Inr y) = (\<exists>x. r = Inr x \<and> f x = Inr y)"
  by (cases r) (simp_all add: bindS_def)

lemma assertS_Inr_iff: "(assertS b = Inr u) = b"
  by (simp add: assertS_def)

lemma py_items_Inr_iff: "(py_items v = Inr xs) = (v = TupleV xs)"
  by (cases v) (simp_all add: py_items_def)

lemma py_index_Inr_iff: "(py_index xs i = Inr x) = (i < length xs \<and> x = xs ! i)"
  by (auto simp: py_index_def)

lemma py_last_Inr_iff: "(py_last xs = Inr x) = (xs \<noteq> [] \<and> x = last xs)"
  by (auto simp: py_last_def)

lemma safe_zip_Inr_iff: "(safe_zip xs ys = Inr ps) = (length xs = length ys \<and> ps = zip xs ys)"
  by (auto simp: safe_zip_def)

lemma bindE_Inr_iff:
  "(bindE m f s = (Inr y, s')) = (\<exists>x s1. m s = (Inr x, s1) \<and> f x s1 = (Inr y, s'))"
  by (auto simp: bindE_def split: prod.splits sum.splits)

lemma liftE_iff: "(liftE r s = (x, s')) = (x = r \<and> s' = s)"
  by (auto simp: liftE_def)

lemma returnE_iff: "(returnE v s = (x, s')) = (x = Inr v \<and> s' = s)"
  by (auto simp: returnE_def)

lemma raiseE_iff: "(raiseE e s = (x, s')) = (x = Inl e \<and> s' = s)"
  by (auto simp: raiseE_def)

lemma ext_iff: "(ext m (w, st) = (x, s')) = (\<exists>w'. m w = (x, w') \<and> s' = (w', st))"
  by (auto simp: ext_def split: prod.splits)

text \<open>The definitions that a concrete run unfolds.\<close>

lemmas run_defs = split_forward_backward_def bindE_def liftE_def ext_def returnE_def raiseE_def
  patch_saved_tensors_def wrap_callables_def update_backward_return_def
  py_index_def py_last_def py_items_def py_item_def py_name_def dict_item_def dict_get_def
  assertS_def bindS_def safe_zip_def swap_map_of_def requires_grad_mask_def requires_grad_of_def
  truthy_def saved_tensors_count_def Let_def
  example_externals_def example_bw_trace_def example_fw_trace_def example_primal_trace_def
  example_stats_def example_bw_filtered_def

text \<open>
  Claim C2. When the arguments bind and no flattened bound argument is a tensor that
  requires a gradient, the routine raises the \<open>RuntimeError\<close> about the missing
  differentiable input and leaves the state as it found it: whatever the passes would do to
  the world, none of them has run, so no trace has been built.
\<close>

theorem no_grad_input_raises_before_tracing:
  assumes "bind_arguments E func call = Inr ba"
    and "\<forall>arg \<in> set (tree_flatten_args E ba). \<not> requires_grad_of arg"
  shows "split_forward_backward E func compile_config compile_data call s
     = (Inl (RuntimeError
         ''PyTorch's Autograd interface requires at least one tensor input with requires_grad=True''),
        s)"
  using assms
  by (simp add: split_forward_backward_def bindE_def liftE_def raiseE_def
      requires_grad_mask_def Let_def)

theorem no_grad_input_raises_before_tracing_witness:
  "bind_arguments example_externals () [TensorProxyArg False, OtherArg, TorchTensor False]
     = Inr [TensorProxyArg False, OtherArg, TorchTensor False]
   \<and> split_forward_backward example_externals () [] None
       [TensorProxyArg False, OtherArg, TorchTensor False] (0, Some example_stats)
     = (Inl (RuntimeError
         ''PyTorch's Autograd interface requires at least one tensor input with requires_grad=True''),
        (0, Some example_stats))"
proof -
  let ?call = "[TensorProxyArg False, OtherArg, TorchTensor False]"
  have b: "bind_arguments example_externals () ?call = Inr ?call"
    by (simp add: example_externals_def)
  have n: "\<forall>arg \<in> set (tree_flatten_args example_externals ?call). \<not> requires_grad_of arg"
    by (simp add: example_externals_def requires_grad_of_def)
  from no_grad_input_raises_before_tracing [OF b n, of "[]" None "(0, Some example_stats)"] b
  show ?thesis by simp
qed

text \<open>
  Lines 60 to 69 on their own: when they succeed, the trace keeps its bound symbols but
  the last, the return, whose argument tuple is filtered by the mask.
\<close>

lemma update_backward_return_result:
  assumes "update_backward_return bw_trace (requires_grad_mask flat_args) = Inr bw_trace'"
  shows "\<exists>grads filtered.
           bound_symbols bw_trace \<noteq> []
         \<and> sym_id (last (bound_symbols bw_trace)) = RETURN
         \<and> py_index (bsym_args (last (bound_symbols bw_trace))) 0 = Inr (TupleV grads)
         \<and> length (bound_symbols bw_trace') = length (bound_symbols bw_trace)
         \<and> butlast (bound_symbols bw_trace') = butlast (bound_symbols bw_trace)
         \<and> last (bound_symbols bw_trace')
             = (last (bound_symbols bw_trace))\<lparr>bsym_args := [TupleV filtered]\<rparr>
         \<and> length grads = length flat_args
         \<and> length filtered = length flat_args
         \<and> (\<forall>i < length flat_args.
               filtered ! i = (if requires_grad_of (flat_args ! i) then grads ! i else NoneV))"
proof -
  let ?bs = "bound_symbols bw_trace"
  let ?m = "requires_grad_mask flat_args"
  from assms obtain grads where
      ne: "?bs \<noteq> []" and ret: "sym_id (last ?bs) = RETURN"
    and a0: "py_index (bsym_args (last ?bs)) 0 = Inr (TupleV grads)"
    and len: "length grads = length ?m"
    and res: "bw_trace' = bw_trace\<lparr>bound_symbols :=
                 ?bs[length ?bs - 1 := (last ?bs)\<lparr>bsym_args :=
                   [TupleV (map (\<lambda>(arg_grad, requires_grad).
                        if requires_grad then arg_grad else NoneV) (zip grads ?m))]\<rparr>]\<rparr>"
    unfolding update_backward_return_def
    by (auto simp: bindS_Inr_iff assertS_Inr_iff py_items_Inr_iff py_last_Inr_iff
        safe_zip_Inr_iff Let_def)
  let ?f = "map (\<lambda>(arg_grad, requires_grad).
                        if requires_grad then arg_grad else NoneV) (zip grads ?m)"
  have lm: "length ?m = length flat_args"
    by (simp add: requires_grad_mask_def)
  have l: "last (bound_symbols bw_trace') = (last ?bs)\<lparr>bsym_args := [TupleV ?f]\<rparr>"
    using ne by (simp add: res last_list_update)
  have b: "butlast (bound_symbols bw_trace') = butlast ?bs"
    using ne by (simp add: res butlast_list_update)
  have n: "length (bound_symbols bw_trace') = length ?bs"
    by (simp add: res)
  have f: "\<forall>i < length flat_args.
             ?f ! i = (if requires_grad_of (flat_args ! i) then grads ! i else NoneV)"
    using len lm by (simp add: requires_grad_mask_def)
  from ne ret a0 len lm l b n f show ?thesis
    by (intro exI[of _ grads] exI[of _ ?f]) simp
qed

lemma liftE_Inr_iff: "(liftE r s = (Inr x, s')) = (r = Inr x \<and> s' = s)"
  by (auto simp: liftE_def)

lemma bindE_assoc: "bindE (bindE m f) g = bindE m (\<lambda>x. bindE (f x) g)"
  by (rule ext) (simp add: bindE_def split: prod.splits sum.splits)

lemma bindE_returnE: "bindE (returnE x) f = f x"
  by (rule ext) (simp add: bindE_def returnE_def)

text \<open>The routine is its three parts in sequence, with the check of the mask in between.\<close>

lemma split_decomposition:
  "split_forward_backward E func compile_config compile_data call =
     bindE (liftE (bind_arguments E func call)) (\<lambda>ba.
       if \<not> (\<exists>b \<in> set (requires_grad_mask (tree_flatten_args E ba)). b) then
         raiseE (RuntimeError
           ''PyTorch's Autograd interface requires at least one tensor input with requires_grad=True'')
       else
         bindE (differentiate E func ba) (\<lambda>(primal_trace, fw_trace, bw_trace).
         bindE (liftE (update_backward_return bw_trace
                         (requires_grad_mask (tree_flatten_args E ba)))) (\<lambda>bw_filtered.
           split_after_filter E compile_config compile_data primal_trace fw_trace bw_filtered)))"
  by (simp add: split_forward_backward_def differentiate_def split_after_filter_def Let_def
      bindE_assoc bindE_returnE split_def cong: if_cong)

lemma return_args_of_Inr_iff:
  "(return_args_of bs = Inr xs) = (bs \<noteq> [] \<and> xs = bsym_args (last bs))"
  by (auto simp: return_args_of_def bindS_Inr_iff py_last_Inr_iff)

lemma ext_Inr_run: "ext m s = (Inr x, s') \<Longrightarrow> \<exists>w w'. m w = (Inr x, w')"
  by (cases s) (auto simp: ext_iff)

lemma keep_replace_redundant_inputs:
  "passes_keep_return E \<Longrightarrow> replace_redundant_inputs E swap_map bsyms w = (Inr bsyms', w')
     \<Longrightarrow> length bsyms' = length bsyms \<and> return_args_of bsyms' = return_args_of bsyms"
  unfolding passes_keep_return_def by meson

lemma keep_transform_for_execution:
  "passes_keep_return E \<Longrightarrow> transform_for_execution E t executors w = (Inr t', w')
     \<Longrightarrow> final_return t' = final_return t"
  unfolding passes_keep_return_def by meson

lemma keep_rematerialize:
  "passes_keep_return E
     \<Longrightarrow> rematerialize_forward_and_backward E fw bw w = (Inr (fw', bw'), w')
     \<Longrightarrow> final_return bw' = final_return bw"
  unfolding passes_keep_return_def by meson

lemma keep_sort_waits:
  "passes_keep_return E \<Longrightarrow> sort_waits E t w = (Inr t', w')
     \<Longrightarrow> final_return t' = final_return t"
  unfolding passes_keep_return_def by meson

lemma keep_del_last_used:
  "passes_keep_return E \<Longrightarrow> del_last_used E t w = (Inr t', w')
     \<Longrightarrow> final_return t' = final_return t"
  unfolding passes_keep_return_def by meson

text \<open>
  The substitution of lines 81 to 102 keeps the final return when the passes do: the
  position it patches by hand, 4, holds an unpacking and so is not the return's.
\<close>

lemma patch_saved_tensors_keeps_return:
  assumes run: "patch_saved_tensors E bw fw s = (Inr t, s')"
    and keep: "passes_keep_return E"
    and ret: "bound_symbols bw \<noteq> []" "sym_id (last (bound_symbols bw)) = RETURN"
  shows "final_return t = final_return bw"
proof -
  from run obtain swap_map new_bsyms w w' n4' where
      rep: "replace_redundant_inputs E swap_map (bound_symbols bw) w = (Inr new_bsyms, w')"
    and b4: "4 < length (bound_symbols bw)"
      "sym_id (bound_symbols bw ! 4) = UNPACK_SEQUENCE"
    and t: "t = bw\<lparr>bound_symbols := new_bsyms[4 := n4']\<rparr>"
    unfolding patch_saved_tensors_def Let_def
    by (cases s)
       (auto simp: bindE_Inr_iff liftE_Inr_iff ext_iff returnE_iff assertS_Inr_iff
          py_index_Inr_iff)
  from keep_replace_redundant_inputs [OF keep rep]
  have len: "length new_bsyms = length (bound_symbols bw)"
    and ra: "return_args_of new_bsyms = return_args_of (bound_symbols bw)"
    by simp_all
  have "length (bound_symbols bw) - 1 \<noteq> 4"
  proof
    assume "length (bound_symbols bw) - 1 = 4"
    with ret(1) have "last (bound_symbols bw) = bound_symbols bw ! 4"
      by (simp add: last_conv_nth)
    with ret(2) b4(2) show False by simp
  qed
  with len b4(1) have "last (new_bsyms[4 := n4']) = last new_bsyms"
    by (cases "new_bsyms = []") (simp_all add: last_conv_nth)
  moreover from len ret(1) have "new_bsyms \<noteq> []" by auto
  ultimately have "return_args_of (new_bsyms[4 := n4']) = return_args_of new_bsyms"
    by (simp add: return_args_of_def py_last_def bindS_def)
  with ra show ?thesis by (simp add: final_return_def t)
qed

text \<open>
  Claim C7. Every run of the split routine that returns has bound its arguments,
  differentiated the trace into a forward and a backward trace, and replaced the final
  return of the backward trace by one whose tuple has one slot per flat input, in
  flat-input order: \<open>None\<close> where the input does not require a gradient and the computed
  gradient where it does. Everything the routine does afterwards, it does with this trace.
  When the later passes keep the final return, the trace behind the returned backward
  callable has this very tuple as its final return.
\<close>

theorem split_filters_gradients:
  assumes "split_forward_backward E func compile_config compile_data call s
             = (Inr (fw, bw), s')"
  shows "\<exists>ba primal_trace fw_trace bw_trace bw_filtered s1 grads filtered.
           bind_arguments E func call = Inr ba
         \<and> differentiate E func ba s = (Inr (primal_trace, fw_trace, bw_trace), s1)
         \<and> split_after_filter E compile_config compile_data primal_trace fw_trace bw_filtered s1
             = (Inr (fw, bw), s')
         \<and> bound_symbols bw_trace \<noteq> []
         \<and> sym_id (last (bound_symbols bw_trace)) = RETURN
         \<and> py_index (bsym_args (last (bound_symbols bw_trace))) 0 = Inr (TupleV grads)
         \<and> butlast (bound_symbols bw_filtered) = butlast (bound_symbols bw_trace)
         \<and> final_return bw_filtered = Inr [TupleV filtered]
         \<and> length grads = length (tree_flatten_args E ba)
         \<and> length filtered = length (tree_flatten_args E ba)
         \<and> (\<forall>i < length (tree_flatten_args E ba).
               filtered ! i = (if requires_grad_of (tree_flatten_args E ba ! i)
                               then grads ! i else NoneV))
         \<and> (passes_keep_return E
              \<longrightarrow> final_return (callable_trace bw) = Inr [TupleV filtered])"
proof -
  let ?cfg = "dict_get compile_config ''executors_list'' NoneV"
  from assms obtain ba primal_trace fw_trace bw_trace s1 bw_filtered where
      ba: "bind_arguments E func call = Inr ba"
    and diff: "differentiate E func ba s = (Inr (primal_trace, fw_trace, bw_trace), s1)"
    and upd: "update_backward_return bw_trace (requires_grad_mask (tree_flatten_args E ba))
                = Inr bw_filtered"
    and after: "split_after_filter E compile_config compile_data primal_trace fw_trace
                  bw_filtered s1 = (Inr (fw, bw), s')"
    unfolding split_decomposition
    by (auto simp: bindE_Inr_iff liftE_Inr_iff raiseE_iff split: if_splits)
  let ?flat = "tree_flatten_args E ba"
  from update_backward_return_result [OF upd] obtain grads filtered where
      ne: "bound_symbols bw_trace \<noteq> []"
    and ret: "sym_id (last (bound_symbols bw_trace)) = RETURN"
    and a0: "py_index (bsym_args (last (bound_symbols bw_trace))) 0 = Inr (TupleV grads)"
    and len: "length (bound_symbols bw_filtered) = length (bound_symbols bw_trace)"
    and bl: "butlast (bound_symbols bw_filtered) = butlast (bound_symbols bw_trace)"
    and la: "last (bound_symbols bw_filtered)
             = (last (bound_symbols bw_trace))\<lparr>bsym_args := [TupleV filtered]\<rparr>"
    and lg: "length grads = length ?flat"
    and lf: "length filtered = length ?flat"
    and pw: "\<forall>i < length ?flat.
               filtered ! i = (if requires_grad_of (?flat ! i) then grads ! i else NoneV)"
    by blast
  from ne len have ne': "bound_symbols bw_filtered \<noteq> []" by auto
  from la ret have ret': "sym_id (last (bound_symbols bw_filtered)) = RETURN" by simp
  from ne' la have fr: "final_return bw_filtered = Inr [TupleV filtered]"
    by (simp add: final_return_def return_args_of_Inr_iff)
  have fin: "final_return (callable_trace bw) = Inr [TupleV filtered]"
    if keep: "passes_keep_return E"
  proof -
    from after obtain fw_ex sa bw_patched sb bw_ex sc fw_r bw_r sd bw_s se fw_d sf bw_d sg
      where p: "patch_saved_tensors E bw_filtered fw_ex sa = (Inr bw_patched, sb)"
        and t: "ext (transform_for_execution E bw_patched ?cfg) sb = (Inr bw_ex, sc)"
        and r: "ext (rematerialize_forward_and_backward E fw_ex bw_ex) sc
                  = (Inr (fw_r, bw_r), sd)"
        and sw: "ext (sort_waits E bw_r) sd = (Inr bw_s, se)"
        and d: "ext (del_last_used E bw_s) sf = (Inr bw_d, sg)"
        and wr: "wrap_callables compile_config compile_data primal_trace fw_d bw_d sg
                  = (Inr (fw, bw), s')"
      unfolding split_after_filter_def Let_def
      by (auto simp: bindE_Inr_iff)
    have "final_return bw_patched = final_return bw_filtered"
      by (rule patch_saved_tensors_keeps_return [OF p keep ne' ret'])
    moreover from ext_Inr_run [OF t] keep_transform_for_execution [OF keep]
    have "final_return bw_ex = final_return bw_patched" by blast
    moreover from ext_Inr_run [OF r] keep_rematerialize [OF keep]
    have "final_return bw_r = final_return bw_ex" by blast
    moreover from ext_Inr_run [OF sw] keep_sort_waits [OF keep]
    have "final_return bw_s = final_return bw_r" by blast
    moreover from ext_Inr_run [OF d] keep_del_last_used [OF keep]
    have "final_return bw_d = final_return bw_s" by blast
    moreover from wr have "callable_trace bw = bw_d"
      by (cases sg)
         (auto simp: wrap_callables_def Let_def split: option.splits if_splits sum.splits)
    ultimately show ?thesis using fr by simp
  qed
  from ba diff after ne ret a0 bl fr lg lf pw fin show ?thesis
    by blast
qed

lemma example_passes_keep_return: "passes_keep_return example_externals"
  by (simp add: passes_keep_return_def example_externals_def)

theorem split_filters_gradients_witness:
  "fst (split_forward_backward example_externals () [] None
          [TensorProxyArg True, OtherArg] (0, None))
     = Inr (PythonCallable example_fw_trace, PythonCallable example_bw_filtered)
   \<and> passes_keep_return example_externals
   \<and> final_return example_bw_trace
       = Inr [TupleV [TensorProxy (Name ''g0''), TensorProxy (Name ''g1'')]]
   \<and> final_return (callable_trace (PythonCallable example_bw_filtered))
       = Inr [TupleV [TensorProxy (Name ''g0''), NoneV]]
   \<and> (\<exists>filtered.
         final_return (callable_trace (PythonCallable example_bw_filtered))
           = Inr [TupleV filtered]
       \<and> length filtered = 2 \<and> filtered ! 1 = NoneV)"
proof -
  let ?call = "[TensorProxyArg True, OtherArg]"
  have run: "split_forward_backward example_externals () [] None ?call (0, None)
     = (Inr (PythonCallable example_fw_trace, PythonCallable example_bw_filtered), (11, None))"
    by (simp add: run_defs)
  have fl: "tree_flatten_args example_externals ba = ba" for ba
    by (simp add: example_externals_def)
  have bd: "bind_arguments example_externals () ?call = Inr ba \<Longrightarrow> ba = ?call" for ba
    by (simp add: example_externals_def)
  from split_filters_gradients [OF run] example_passes_keep_return
  obtain ba grads filtered where
      "bind_arguments example_externals () ?call = Inr ba"
    and "final_return (callable_trace (PythonCallable example_bw_filtered))
           = Inr [TupleV filtered]"
    and "length filtered = length (tree_flatten_args example_externals ba)"
    and "\<forall>i < length (tree_flatten_args example_externals ba).
               filtered ! i = (if requires_grad_of (tree_flatten_args example_externals ba ! i)
                               then grads ! i else NoneV)"
    by blast
  then have ex: "\<exists>filtered.
         final_return (callable_trace (PythonCallable example_bw_filtered))
           = Inr [TupleV filtered]
       \<and> length filtered = 2 \<and> filtered ! 1 = NoneV"
    using bd fl by (auto simp: requires_grad_of_def)
  have f0: "final_return example_bw_trace
       = Inr [TupleV [TensorProxy (Name ''g0''), TensorProxy (Name ''g1'')]]"
    by (simp add: final_return_def return_args_of_def bindS_def py_last_def
        example_bw_trace_def)
  have f1: "final_return (callable_trace (PythonCallable example_bw_filtered))
       = Inr [TupleV [TensorProxy (Name ''g0''), NoneV]]"
    by (simp add: final_return_def return_args_of_def bindS_def py_last_def
        example_bw_filtered_def example_bw_trace_def)
  from run example_passes_keep_return f0 f1 ex show ?thesis by simp
qed

text \<open>
  A run that returns has reached the last statements of the routine with the statistics
  record it started with.
\<close>

lemma patch_saved_tensors_stats:
  assumes "patch_saved_tensors E bw fw (w, st) = (Inr t, s')"
  shows "\<exists>w'. s' = (w', st)"
  using assms unfolding patch_saved_tensors_def Let_def
  by (auto simp: bindE_Inr_iff liftE_iff ext_iff returnE_iff)

lemma split_reaches_wrap_callables:
  assumes "split_forward_backward E func compile_config compile_data call (w, st) = (Inr r, s')"
  shows "\<exists>primal_trace fw_extrace bw_extrace w'.
           wrap_callables compile_config compile_data primal_trace fw_extrace bw_extrace (w', st)
             = (Inr r, s')"
  using assms unfolding split_forward_backward_def Let_def
  by (auto simp: bindE_Inr_iff liftE_iff ext_iff raiseE_iff split: if_splits
           dest!: patch_saved_tensors_stats)

lemma example_run_with_stats:
  "split_forward_backward example_externals () [(''use_cudagraphs'', BoolV True)]
     (Some \<lparr>use_cudagraphs = False, num_constant_args = 3\<rparr>)
     [TensorProxyArg True, OtherArg] (0, Some example_stats)
   = (Inr (CUDAGraphExecutor (PythonCallable example_fw_trace) 3,
           CUDAGraphExecutor (PythonCallable example_bw_filtered) 1),
      (11, Some \<lparr>stats_primal_trace = Some example_primal_trace,
                 stats_forward_last_traces = [example_fw_trace],
                 stats_backward_last_traces = [example_bw_filtered]\<rparr>))"
  by (simp add: run_defs)

lemma example_run_without_stats:
  "split_forward_backward example_externals () [(''use_cudagraphs'', BoolV True)]
     (Some \<lparr>use_cudagraphs = True, num_constant_args = 3\<rparr>)
     [TensorProxyArg True, OtherArg] (0, None)
   = (Inr (PythonCallable example_fw_trace, PythonCallable example_bw_filtered), (11, None))"
  by (simp add: run_defs)

text \<open>
  Claim C3, as amended. A run that returns, was given a statistics record and compile-time
  data, and for which capture-graph replay was requested by the configuration or by the
  compile-time data, returns both callables wrapped in the capture/replay executor: the
  forward one with the constant-argument count of the compile-time data, the backward one
  with the number of saved tensors of the finalized backward trace. A run that returns and
  was given no statistics record returns the plain callables of two traces, whatever was
  requested.
\<close>

theorem cudagraphs_wrap_with_stats:
  "(split_forward_backward E func compile_config (Some cd) call (w, Some cs)
        = (Inr (fw, bw), s')
      \<and> (use_cudagraphs cd
          \<or> truthy (dict_get compile_config ''use_cudagraphs'' (BoolV False)))
      \<longrightarrow> (\<exists>fw_extrace bw_extrace saved.
             fw = CUDAGraphExecutor (PythonCallable fw_extrace) (num_constant_args cd)
           \<and> bw = CUDAGraphExecutor (PythonCallable bw_extrace) (int (length saved))
           \<and> bindS (py_index (trace_args bw_extrace) 0) (\<lambda>a. py_item a 0)
               = Inr (TupleV saved)))
   \<and> (split_forward_backward E func compile_config compile_data call (w, None)
        = (Inr (fw0, bw0), s0)
      \<longrightarrow> (\<exists>fw_extrace bw_extrace.
             fw0 = PythonCallable fw_extrace \<and> bw0 = PythonCallable bw_extrace))"
proof (intro conjI impI)
  assume a: "split_forward_backward E func compile_config (Some cd) call (w, Some cs)
        = (Inr (fw, bw), s')
      \<and> (use_cudagraphs cd
          \<or> truthy (dict_get compile_config ''use_cudagraphs'' (BoolV False)))"
  from a split_reaches_wrap_callables [of E func compile_config "Some cd" call w "Some cs"]
  obtain primal_trace fw_extrace bw_extrace w' where
    wr: "wrap_callables compile_config (Some cd) primal_trace fw_extrace bw_extrace (w', Some cs)
           = (Inr (fw, bw), s')"
    by blast
  from wr a obtain n where
    n: "saved_tensors_count bw_extrace = Inr n"
    and fw: "fw = CUDAGraphExecutor (PythonCallable fw_extrace) (num_constant_args cd)"
    and bw: "bw = CUDAGraphExecutor (PythonCallable bw_extrace) n"
    by (auto simp: wrap_callables_def Let_def split: sum.splits)
  from n obtain saved where
    "bindS (py_index (trace_args bw_extrace) 0) (\<lambda>a. py_item a 0) = Inr (TupleV saved)"
    and "n = int (length saved)"
    by (auto simp: saved_tensors_count_def bindS_Inr_iff py_items_Inr_iff)
  with fw bw show "\<exists>fw_extrace bw_extrace saved.
             fw = CUDAGraphExecutor (PythonCallable fw_extrace) (num_constant_args cd)
           \<and> bw = CUDAGraphExecutor (PythonCallable bw_extrace) (int (length saved))
           \<and> bindS (py_index (trace_args bw_extrace) 0) (\<lambda>a. py_item a 0)
               = Inr (TupleV saved)"
    by blast
next
  assume b: "split_forward_backward E func compile_config compile_data call (w, None)
        = (Inr (fw0, bw0), s0)"
  from split_reaches_wrap_callables [OF b]
  obtain primal_trace fw_extrace bw_extrace w' where
    "wrap_callables compile_config compile_data primal_trace fw_extrace bw_extrace (w', None)
           = (Inr (fw0, bw0), s0)"
    by blast
  then have "fw0 = PythonCallable fw_extrace \<and> bw0 = PythonCallable bw_extrace"
    by (simp add: wrap_callables_def)
  then show "\<exists>fw_extrace bw_extrace.
             fw0 = PythonCallable fw_extrace \<and> bw0 = PythonCallable bw_extrace"
    by blast
qed

theorem cudagraphs_wrap_with_stats_witness:
  "fst (split_forward_backward example_externals () [(''use_cudagraphs'', BoolV True)]
     (Some \<lparr>use_cudagraphs = False, num_constant_args = 3\<rparr>)
     [TensorProxyArg True, OtherArg] (0, Some example_stats))
   = Inr (CUDAGraphExecutor (PythonCallable example_fw_trace) 3,
          CUDAGraphExecutor (PythonCallable example_bw_filtered) 1)
   \<and> truthy (dict_get [(''use_cudagraphs'', BoolV True)] ''use_cudagraphs'' (BoolV False))
   \<and> (\<exists>fw_extrace bw_extrace saved.
         CUDAGraphExecutor (PythonCallable example_fw_trace) 3
           = CUDAGraphExecutor (PythonCallable fw_extrace) 3
       \<and> CUDAGraphExecutor (PythonCallable example_bw_filtered) 1
           = CUDAGraphExecutor (PythonCallable bw_extrace) (int (length saved))
       \<and> bindS (py_index (trace_args bw_extrace) 0) (\<lambda>a. py_item a 0) = Inr (TupleV saved))
   \<and> fst (split_forward_backward example_externals () [(''use_cudagraphs'', BoolV True)]
       (Some \<lparr>use_cudagraphs = True, num_constant_args = 3\<rparr>)
       [TensorProxyArg True, OtherArg] (0, None))
     = Inr (PythonCallable example_fw_trace, PythonCallable example_bw_filtered)
   \<and> (\<exists>fw_extrace bw_extrace.
         PythonCallable example_fw_trace = PythonCallable fw_extrace
       \<and> PythonCallable example_bw_filtered = PythonCallable bw_extrace)"
proof -
  let ?cfg = "[(''use_cudagraphs'', BoolV True)]"
  let ?cd = "\<lparr>use_cudagraphs = False, num_constant_args = 3\<rparr>"
  let ?cd1 = "\<lparr>use_cudagraphs = True, num_constant_args = 3\<rparr>"
  let ?call = "[TensorProxyArg True, OtherArg]"
  have t: "use_cudagraphs ?cd \<or> truthy (dict_get ?cfg ''use_cudagraphs'' (BoolV False))"
    by (simp add: truthy_def dict_get_def)
  note inst = cudagraphs_wrap_with_stats
    [of example_externals "()" ?cfg ?cd ?call 0 example_stats
        "CUDAGraphExecutor (PythonCallable example_fw_trace) 3"
        "CUDAGraphExecutor (PythonCallable example_bw_filtered) 1"
        "(11, Some \<lparr>stats_primal_trace = Some example_primal_trace,
                 stats_forward_last_traces = [example_fw_trace],
                 stats_backward_last_traces = [example_bw_filtered]\<rparr>)"
        "Some ?cd1" "PythonCallable example_fw_trace" "PythonCallable example_bw_filtered"
        "(11, None)"]
  from inst example_run_with_stats t
  have with_stats: "\<exists>fw_extrace bw_extrace saved.
         CUDAGraphExecutor (PythonCallable example_fw_trace) 3
           = CUDAGraphExecutor (PythonCallable fw_extrace) 3
       \<and> CUDAGraphExecutor (PythonCallable example_bw_filtered) 1
           = CUDAGraphExecutor (PythonCallable bw_extrace) (int (length saved))
       \<and> bindS (py_index (trace_args bw_extrace) 0) (\<lambda>a. py_item a 0) = Inr (TupleV saved)"
    by simp
  from inst example_run_without_stats
  have without_stats: "\<exists>fw_extrace bw_extrace.
         PythonCallable example_fw_trace = PythonCallable fw_extrace
       \<and> PythonCallable example_bw_filtered = PythonCallable bw_extrace"
    by blast
  from with_stats without_stats t show ?thesis
    by (simp add: example_run_with_stats example_run_without_stats)
qed

text \<open>
  The claim as stated (wrapped whenever replay was requested) fails for a run without a
  statistics record: replay is requested by the configuration and by the compile-time
  data, and the plain callables are returned.
\<close>

theorem cudagraphs_without_stats_counterexample:
  "use_cudagraphs \<lparr>use_cudagraphs = True, num_constant_args = 3\<rparr>
   \<and> truthy (dict_get [(''use_cudagraphs'', BoolV True)] ''use_cudagraphs'' (BoolV False))
   \<and> split_forward_backward example_externals () [(''use_cudagraphs'', BoolV True)]
       (Some \<lparr>use_cudagraphs = True, num_constant_args = 3\<rparr>)
       [TensorProxyArg True, OtherArg] (0, None)
     = (Inr (PythonCallable example_fw_trace, PythonCallable example_bw_filtered), (11, None))"
  by (simp add: run_defs)

section \<open>Properties of the gradient all-reduce rewrite\<close>

lemma fold_initial_keys:
  "(fold (\<lambda>grad m. case grad of TensorProxy n \<Rightarrow> m(n \<mapsto> BoolV True) | _ \<Rightarrow> m) gs m0 n = None)
     = (m0 n = None \<and> TensorProxy n \<notin> set gs)"
proof (induction gs arbitrary: m0)
  case Nil
  then show ?case by simp
next
  case (Cons g gs)
  show ?case by (cases g) (auto simp: Cons.IH)
qed

lemma initial_grad_to_future_keys:
  "keys_are (initial_grad_to_future gradients) gradients"
  unfolding keys_are_def initial_grad_to_future_def
  by (simp only: fold_initial_keys) simp

lemma is_TensorProxy_iff: "is_TensorProxy v = (\<exists>n. v = TensorProxy n)"
  by (cases v) (simp_all add: is_TensorProxy_def)

lemma allreduce_gradients_result:
  assumes "\<forall>g \<in> set gs. is_TensorProxy g"
  shows "allreduce_gradients (FloatV (int (pg_size pg))) (GroupV pg) gtf gs
       = (concat (map (communication pg) gs),
          (\<lambda>n. if TensorProxy n \<in> set gs then Some (allreduce_future pg (TensorProxy n))
                else gtf n))"
  using assms
proof (induction gs arbitrary: gtf)
  case Nil
  then show ?case by simp
next
  case (Cons g gs)
  from Cons.prems obtain m where g: "g = TensorProxy m"
    by (auto simp: is_TensorProxy_iff)
  from Cons.prems have rest: "\<forall>g \<in> set gs. is_TensorProxy g" by simp
  show ?case
    by (auto simp: g Cons.IH [OF rest] true_divide_def all_reduce_def communication_def
        preaveraged_grad_def allreduce_future_def Let_def)
qed

lemma grads_of_bsym_tracked:
  assumes "keys_are gtf gradients"
  shows "grads_of_bsym gtf bsym = tracked_outputs gradients bsym"
proof -
  have "(case t of TensorProxy n \<Rightarrow> gtf n \<noteq> None | _ \<Rightarrow> False)
          = (is_TensorProxy t \<and> t \<in> set gradients)" for t
    using assms by (cases t) (simp_all add: is_TensorProxy_def keys_are_def)
  then show ?thesis by (simp add: grads_of_bsym_def tracked_outputs_def)
qed

lemma tracked_outputs_tensors: "\<forall>g \<in> set (tracked_outputs gradients bsym). is_TensorProxy g"
  by (simp add: tracked_outputs_def)

lemma visit_other:
  assumes "sym_id bsym \<noteq> RETURN" and "keys_are gtf gradients"
  shows "AllReduceGradVisitor gradients (FloatV (int (pg_size pg))) (GroupV pg) gtf bsym
       = Inr (INSERT_AFTER, concat (map (communication pg) (tracked_outputs gradients bsym)),
              (\<lambda>n. if TensorProxy n \<in> set (tracked_outputs gradients bsym)
                    then Some (allreduce_future pg (TensorProxy n)) else gtf n))"
proof (cases "tracked_outputs gradients bsym = []")
  case True
  then show ?thesis
    using assms by (simp add: AllReduceGradVisitor_def grads_of_bsym_tracked)
next
  case False
  then show ?thesis
    using assms
    by (simp add: AllReduceGradVisitor_def grads_of_bsym_tracked Let_def
        allreduce_gradients_result [OF tracked_outputs_tensors])
qed

lemma visit_body:
  assumes "\<forall>b \<in> set body. sym_id b \<noteq> RETURN"
    and "keys_are gtf gradients"
  shows "\<exists>gtf'. keys_are gtf' gradients
          \<and> (\<forall>n. (\<exists>b \<in> set body. TensorProxy n \<in> set (tracked_outputs gradients b))
                 \<longrightarrow> gtf' n = Some (allreduce_future pg (TensorProxy n)))
          \<and> (\<forall>n. gtf n = Some (allreduce_future pg (TensorProxy n))
                 \<longrightarrow> gtf' n = Some (allreduce_future pg (TensorProxy n)))
          \<and> (\<forall>rest. visit_bsyms
                (AllReduceGradVisitor gradients (FloatV (int (pg_size pg))) (GroupV pg))
                gtf (body @ rest)
              = (case visit_bsyms
                   (AllReduceGradVisitor gradients (FloatV (int (pg_size pg))) (GroupV pg))
                   gtf' rest of
                   Inl e \<Rightarrow> Inl e
                 | Inr out \<Rightarrow> Inr (rewritten_body pg gradients body @ out)))"
  using assms
proof (induction body arbitrary: gtf)
  case Nil
  show ?case
    by (rule exI [of _ gtf]) (simp add: Nil.prems rewritten_body_def split: sum.splits)
next
  case (Cons b body)
  let ?V = "AllReduceGradVisitor gradients (FloatV (int (pg_size pg))) (GroupV pg)"
  let ?g1 = "\<lambda>n. if TensorProxy n \<in> set (tracked_outputs gradients b)
                    then Some (allreduce_future pg (TensorProxy n)) else gtf n"
  from Cons.prems have nb: "sym_id b \<noteq> RETURN" and nbody: "\<forall>b \<in> set body. sym_id b \<noteq> RETURN"
    by simp_all
  have step: "?V gtf b
       = Inr (INSERT_AFTER, concat (map (communication pg) (tracked_outputs gradients b)), ?g1)"
    by (rule visit_other [OF nb Cons.prems(2)])
  have dom1: "keys_are ?g1 gradients"
    using Cons.prems(2) by (simp add: keys_are_def tracked_outputs_def)
  from Cons.IH [OF nbody dom1] obtain gtf' where
    d: "keys_are gtf' gradients"
    and p: "\<forall>n. (\<exists>b \<in> set body. TensorProxy n \<in> set (tracked_outputs gradients b))
                 \<longrightarrow> gtf' n = Some (allreduce_future pg (TensorProxy n))"
    and k: "\<forall>n. ?g1 n = Some (allreduce_future pg (TensorProxy n))
                 \<longrightarrow> gtf' n = Some (allreduce_future pg (TensorProxy n))"
    and r: "\<forall>rest. visit_bsyms ?V ?g1 (body @ rest)
              = (case visit_bsyms ?V gtf' rest of
                   Inl e \<Rightarrow> Inl e
                 | Inr out \<Rightarrow> Inr (rewritten_body pg gradients body @ out))"
    by blast
  show ?case
  proof (intro exI [of _ gtf'] conjI allI impI)
    show "keys_are gtf' gradients" by (rule d)
  next
    fix n assume "\<exists>b' \<in> set (b # body). TensorProxy n \<in> set (tracked_outputs gradients b')"
    then show "gtf' n = Some (allreduce_future pg (TensorProxy n))"
      using p k by auto
  next
    fix n assume "gtf n = Some (allreduce_future pg (TensorProxy n))"
    then have "?g1 n = Some (allreduce_future pg (TensorProxy n))" by simp
    with k show "gtf' n = Some (allreduce_future pg (TensorProxy n))" by blast
  next
    fix rest
    show "visit_bsyms ?V gtf ((b # body) @ rest)
              = (case visit_bsyms ?V gtf' rest of
                   Inl e \<Rightarrow> Inl e
                 | Inr out \<Rightarrow> Inr (rewritten_body pg gradients (b # body) @ out))"
      using r by (simp add: step place_def rewritten_body_def split: sum.splits)
  qed
qed

lemma is_TensorProxy_simps [simp]:
  "is_TensorProxy (TensorProxy n)" "\<not> is_TensorProxy NoneV" "\<not> is_TensorProxy (BoolV b)"
  "\<not> is_TensorProxy (IntV i)" "\<not> is_TensorProxy (FloatV i)" "\<not> is_TensorProxy (StrV s)"
  "\<not> is_TensorProxy (FutureTensorProxy n)" "\<not> is_TensorProxy (CollectionProxy n)"
  "\<not> is_TensorProxy (TupleV xs)" "\<not> is_TensorProxy (GroupV g)"
  by (simp_all add: is_TensorProxy_def)

lemma wait_allreduce_future:
  "wait (allreduce_future pg g) = Inr (wait_symbol pg g, waited (allreduce_future pg g))"
  by (simp add: wait_def allreduce_future_def wait_symbol_def waited_def Let_def)

lemma wait_gradients_result:
  assumes "\<forall>n. TensorProxy n \<in> set gs \<longrightarrow> gtf n = Some (allreduce_future pg (TensorProxy n))"
  shows "wait_gradients gtf gs
       = Inr (map (wait_symbol pg) (filter is_TensorProxy gs),
              map (\<lambda>g. if is_TensorProxy g then waited (allreduce_future pg g) else NoneV) gs)"
  using assms
proof (induction gs)
  case Nil
  then show ?case by simp
next
  case (Cons g gs)
  then have ih: "wait_gradients gtf gs
       = Inr (map (wait_symbol pg) (filter is_TensorProxy gs),
              map (\<lambda>g. if is_TensorProxy g then waited (allreduce_future pg g) else NoneV) gs)"
    by simp
  show ?case
  proof (cases g)
    case (TensorProxy n)
    with Cons.prems have "gtf n = Some (allreduce_future pg (TensorProxy n))" by simp
    then show ?thesis
      by (simp add: TensorProxy ih wait_allreduce_future)
  qed (simp_all add: ih)
qed

text \<open>
  Claim C1, as amended. Let the backward trace end with its only return, let every tensor
  gradient of its output be among the flat outputs of a bound symbol before the return,
  and let the group have size \<open>N\<close>. Then the rewrite succeeds, and in the rewritten trace
  every bound symbol before the return is followed, for each tracked gradient among its
  outputs, by the division of the gradient by \<open>N\<close> and the asynchronous all-reduce of the
  quotient over the group; the return is replaced by one wait per tensor gradient and a
  return whose slot, at each flat position of the old output, is the waited all-reduce of
  the pre-averaged gradient for a tensor and \<open>None\<close> for anything else.
\<close>

theorem allreduce_rewrite:
  assumes "bound_symbols backward_trace = body @ [ret]"
    and "sym_id ret = RETURN"
    and "\<forall>b \<in> set body. sym_id b \<noteq> RETURN"
    and "\<forall>g \<in> set (tree_flatten (trace_output backward_trace)).
           is_TensorProxy g \<longrightarrow> (\<exists>b \<in> set body. g \<in> set (tree_flatten (bsym_output b)))"
    and "pg = (case process_group of None \<Rightarrow> default_group | Some g \<Rightarrow> g)"
    and "gradients = tree_flatten (trace_output backward_trace)"
  shows "insert_bsym_to_allreduce_grads default_group backward_trace process_group
       = Inr (backward_trace\<lparr>bound_symbols :=
                rewritten_body pg gradients body
                @ map (wait_symbol pg) (filter is_TensorProxy gradients)
                @ [rewritten_return pg gradients]\<rparr>)"
proof -
  let ?V = "AllReduceGradVisitor gradients (FloatV (int (pg_size pg))) (GroupV pg)"
  let ?g0 = "initial_grad_to_future gradients"
  have d0: "keys_are ?g0 gradients"
    by (rule initial_grad_to_future_keys)
  from visit_body [OF assms(3) d0, of pg] obtain gtf' where
    p: "\<forall>n. (\<exists>b \<in> set body. TensorProxy n \<in> set (tracked_outputs gradients b))
                 \<longrightarrow> gtf' n = Some (allreduce_future pg (TensorProxy n))"
    and r: "\<forall>rest. visit_bsyms ?V ?g0 (body @ rest)
              = (case visit_bsyms ?V gtf' rest of
                   Inl e \<Rightarrow> Inl e
                 | Inr out \<Rightarrow> Inr (rewritten_body pg gradients body @ out))"
    by blast
  have fut: "\<forall>n. TensorProxy n \<in> set gradients
               \<longrightarrow> gtf' n = Some (allreduce_future pg (TensorProxy n))"
  proof (intro allI impI)
    fix n assume n: "TensorProxy n \<in> set gradients"
    with assms(4,6) obtain b where "b \<in> set body"
      and "TensorProxy n \<in> set (tree_flatten (bsym_output b))"
      by (auto simp: is_TensorProxy_def)
    with n have "\<exists>b \<in> set body. TensorProxy n \<in> set (tracked_outputs gradients b)"
      by (auto simp: tracked_outputs_def is_TensorProxy_def)
    with p show "gtf' n = Some (allreduce_future pg (TensorProxy n))" by blast
  qed
  have ret: "visit_bsyms ?V gtf' [ret]
      = Inr (map (wait_symbol pg) (filter is_TensorProxy gradients)
             @ [rewritten_return pg gradients])"
    by (simp add: AllReduceGradVisitor_def assms(2) wait_gradients_result [OF fut]
        bindS_def place_def rewritten_return_def)
  have "visit_bsyms ?V ?g0 (bound_symbols backward_trace)
      = Inr (rewritten_body pg gradients body
             @ map (wait_symbol pg) (filter is_TensorProxy gradients)
             @ [rewritten_return pg gradients])"
    using r ret by (simp add: assms(1))
  then show ?thesis
    using assms(5,6)
    by (simp add: insert_bsym_to_allreduce_grads_def visitor_transform_def bindS_def Let_def)
qed

lemmas rewrite_defs = insert_bsym_to_allreduce_grads_def visitor_transform_def
  AllReduceGradVisitor_def grads_of_bsym_def initial_grad_to_future_def place_def
  true_divide_def all_reduce_def wait_def python_return_def bindS_def Let_def
  returned_slots_def example_grad_trace_def example_grad_body_def example_grad_return_def
  communication_def wait_symbol_def waited_def allreduce_future_def preaveraged_grad_def
  rewritten_body_def rewritten_return_def tracked_outputs_def

theorem allreduce_rewrite_witness:
  "bound_symbols example_grad_trace = example_grad_body @ [example_grad_return]
   \<and> sym_id example_grad_return = RETURN
   \<and> tree_flatten (trace_output example_grad_trace)
       = [TensorProxy (Name ''g0''), TensorProxy (Name ''g1''), IntV 7]
   \<and> insert_bsym_to_allreduce_grads (ProcessGroup 2) example_grad_trace (Some (ProcessGroup 4))
     = Inr (example_grad_trace\<lparr>bound_symbols :=
              [example_grad_body ! 0]
              @ communication (ProcessGroup 4) (TensorProxy (Name ''g0''))
              @ [example_grad_body ! 1]
              @ communication (ProcessGroup 4) (TensorProxy (Name ''g1''))
              @ [wait_symbol (ProcessGroup 4) (TensorProxy (Name ''g0'')),
                 wait_symbol (ProcessGroup 4) (TensorProxy (Name ''g1'')),
                 python_return
                   [waited (allreduce_future (ProcessGroup 4) (TensorProxy (Name ''g0''))),
                    waited (allreduce_future (ProcessGroup 4) (TensorProxy (Name ''g1''))),
                    NoneV]]\<rparr>)"
proof -
  let ?grads = "[TensorProxy (Name ''g0''), TensorProxy (Name ''g1''), IntV 7]"
  have a1: "bound_symbols example_grad_trace = example_grad_body @ [example_grad_return]"
    by (simp add: example_grad_trace_def)
  have a2: "sym_id example_grad_return = RETURN"
    by (simp add: example_grad_return_def)
  have a3: "\<forall>b \<in> set example_grad_body. sym_id b \<noteq> RETURN"
    by (simp add: example_grad_body_def)
  have fl: "tree_flatten (trace_output example_grad_trace) = ?grads"
    by (simp add: example_grad_trace_def)
  have a4: "\<forall>g \<in> set (tree_flatten (trace_output example_grad_trace)).
           is_TensorProxy g
           \<longrightarrow> (\<exists>b \<in> set example_grad_body. g \<in> set (tree_flatten (bsym_output b)))"
    unfolding fl by (simp add: example_grad_body_def)
  have a5: "ProcessGroup 4
      = (case Some (ProcessGroup 4) of None \<Rightarrow> ProcessGroup 2 | Some g \<Rightarrow> g)"
    by simp
  from allreduce_rewrite [OF a1 a2 a3 a4 a5 fl [symmetric]]
  have "insert_bsym_to_allreduce_grads (ProcessGroup 2) example_grad_trace
          (Some (ProcessGroup 4))
       = Inr (example_grad_trace\<lparr>bound_symbols :=
                rewritten_body (ProcessGroup 4) ?grads example_grad_body
                @ map (wait_symbol (ProcessGroup 4)) (filter is_TensorProxy ?grads)
                @ [rewritten_return (ProcessGroup 4) ?grads]\<rparr>)" .
  then show ?thesis
    using a1 a2 fl
    by (simp add: rewritten_body_def rewritten_return_def tracked_outputs_def
        example_grad_body_def)
qed

text \<open>
  The claim as stated (non-tensor slots pass through unchanged) fails for a return with
  two gradient tensors and the number 7, rewritten for a group of size 4: the third slot
  of the new return is \<open>None\<close>.
\<close>

theorem allreduce_rewrite_counterexample:
  "tree_flatten (trace_output example_grad_trace)
     = [TensorProxy (Name ''g0''), TensorProxy (Name ''g1''), IntV 7]
   \<and> returned_slots
       (insert_bsym_to_allreduce_grads (ProcessGroup 4) example_grad_trace None)
     = Inr [waited (allreduce_future (ProcessGroup 4) (TensorProxy (Name ''g0''))),
            waited (allreduce_future (ProcessGroup 4) (TensorProxy (Name ''g1''))),
            NoneV]"
  by (simp add: rewrite_defs)

end
